theory Spec2Isabelle
  imports Main
begin

section \<open>JavaScript values\<close>

text \<open>
  The merge engine receives its payload as parsed JSON and hands JavaScript values to the
  templating engines; the errors it throws and catches are JavaScript values too.  A value
  is \<open>undefined\<close>, \<open>null\<close>, a boolean, a number (integers only: no claim
  below depends on fractions), a string, an array, or an object.  An object is the list of
  its own enumerable properties in the order \<open>Object.entries\<close> reports them.

  Text is held as the bytes of its UTF-8 encoding, one \<open>char\<close> per byte.  A string and the
  \<open>Buffer\<close> that \<open>Buffer.from(s, "utf8")\<close> makes of it are then the same list, and the
  length of the list is the \<open>length\<close> of the \<open>Buffer\<close>.  (A surrogate code unit outside a
  pair, which UTF-8 proper does not encode, takes the three-byte form of its number.)
\<close>

datatype jsval =
    JUndefined
  | JNull
  | JBool bool
  | JNum int
  | JStr string
  | JArr "jsval list"
  | JObj "(string \<times> jsval) list"

text \<open>Decimal digits of a natural number, as \<open>String(n)\<close> prints an index or a timestamp.\<close>

fun showNat :: "nat \<Rightarrow> string" where
  "showNat n =
     (if n < 10 then [''0123456789'' ! n]
      else showNat (n div 10) @ [''0123456789'' ! (n mod 10)])"

declare showNat.simps [simp del]

definition showInt :: "int \<Rightarrow> string" where
  "showInt i = (if i < 0 then CHR ''-'' # showNat (nat (- i)) else showNat (nat i))"

text \<open>JavaScript truthiness, as used by \<open>||\<close>, \<open>&&\<close>, \<open>!!\<close> and \<open>if\<close>.\<close>

fun truthy :: "jsval \<Rightarrow> bool" where
  "truthy JUndefined = False"
| "truthy JNull = False"
| "truthy (JBool b) = b"
| "truthy (JNum n) = (n \<noteq> 0)"
| "truthy (JStr s) = (s \<noteq> [])"
| "truthy (JArr _) = True"
| "truthy (JObj _) = True"

fun nullish :: "jsval \<Rightarrow> bool" where
  "nullish JUndefined = True"
| "nullish JNull = True"
| "nullish _ = False"

text \<open>
  An \<open>Error\<close> object is the object of its \<open>message\<close> and of the properties assigned to it
  afterwards.  \<open>typeError\<close> is the \<open>TypeError\<close> that the language itself throws: when a
  property of \<open>null\<close> or \<open>undefined\<close> is read, and when either is converted to an object.
\<close>

definition newError :: "string \<Rightarrow> jsval" where
  "newError msg = JObj [(''message'', JStr msg)]"

definition typeError :: jsval where
  "typeError = newError ''Cannot read properties of undefined''"

text \<open>
  The UTF-16 code units of a string, each as a string of its own; they are what JavaScript
  indexes a string by.  A character of one, two or three bytes is one unit.  A character of
  four bytes is a pair of surrogates.
\<close>

definition threeBytes :: "nat \<Rightarrow> string" where
  "threeBytes u =
     [char_of (224 + u div 4096), char_of (128 + (u div 64) mod 64), char_of (128 + u mod 64)]"

fun surrogates :: "nat list \<Rightarrow> string list" where
  "surrogates [b0, b1, b2, b3] =
     (let v = (b0 mod 8) * 262144 + (b1 mod 64) * 4096 + (b2 mod 64) * 64 + b3 mod 64 - 65536
      in [threeBytes (55296 + v div 1024), threeBytes (56320 + v mod 1024)])"
| "surrogates bs = [map char_of bs]"

function codeUnits :: "string \<Rightarrow> string list" where
  "codeUnits [] = []"
| "codeUnits (c # cs) =
     (let n = (if (of_char c :: nat) < 192 then 0 else if (of_char c :: nat) < 224 then 1
               else if (of_char c :: nat) < 240 then 2 else 3 :: nat)
      in (if n = 3 then surrogates (map of_char (c # take 3 cs)) else [c # take n cs]) @
         codeUnits (drop n cs))"
  by pat_completeness auto
termination
  by (relation "measure length") auto

text \<open>
  \<open>Object.entries(v)\<close>: the properties of an object, the indexed elements of an array, the
  indexed code units of a string, and nothing for a number or a boolean.  For \<open>null\<close> and
  \<open>undefined\<close> it throws a \<open>TypeError\<close>.
\<close>

fun entries :: "jsval \<Rightarrow> jsval + (string \<times> jsval) list" where
  "entries JUndefined = Inl typeError"
| "entries JNull = Inl typeError"
| "entries (JObj kvs) = Inr kvs"
| "entries (JArr xs) = Inr (zip (map showNat [0..<length xs]) xs)"
| "entries (JStr s) = Inr (zip (map showNat [0..<length (codeUnits s)]) (map JStr (codeUnits s)))"
| "entries _ = Inr []"

text \<open>\<open>v && typeof v === "object" && !Array.isArray(v)\<close>: a non-array mapping.\<close>

fun isPlainObject :: "jsval \<Rightarrow> bool" where
  "isPlainObject (JObj _) = True"
| "isPlainObject _ = False"

text \<open>Property read \<open>v.k\<close> on a value that is not nullish (a missing property is \<open>undefined\<close>).\<close>

fun lookupKey :: "(string \<times> jsval) list \<Rightarrow> string \<Rightarrow> jsval" where
  "lookupKey [] k = JUndefined"
| "lookupKey ((k', v) # kvs) k = (if k' = k then v else lookupKey kvs k)"

fun getProp :: "jsval \<Rightarrow> string \<Rightarrow> jsval" where
  "getProp (JObj kvs) k = lookupKey kvs k"
| "getProp _ k = JUndefined"

text \<open>Optional chaining \<open>v?.k\<close>: \<open>undefined\<close> when \<open>v\<close> is nullish.\<close>

definition optProp :: "jsval \<Rightarrow> string \<Rightarrow> jsval" where
  "optProp v k = (if nullish v then JUndefined else getProp v k)"

text \<open>\<open>Array.prototype.join\<close> on strings.\<close>

fun joinWith :: "string \<Rightarrow> string list \<Rightarrow> string" where
  "joinWith sep [] = []"
| "joinWith sep [x] = x"
| "joinWith sep (x # y # ys) = x @ sep @ joinWith sep (y # ys)"

text \<open>
  The elements of \<open>[...new Set(xs)]\<close>: each value once, in the order of first insertion.
\<close>

fun uniq :: "'a list \<Rightarrow> 'a list \<Rightarrow> 'a list" where
  "uniq seen [] = []"
| "uniq seen (x # xs) = (if x \<in> set seen then uniq seen xs else x # uniq (x # seen) xs)"

definition setOrder :: "'a list \<Rightarrow> 'a list" where
  "setOrder xs = uniq [] xs"

section \<open>Field-contract validator: \<open>flattenKeys\<close>\<close>

text \<open>
  \<^verbatim>\<open>
  function flattenKeys(obj, prefix = "") {
    const out = [];
    for (const [k, v] of Object.entries(obj || {})) {
      const path = prefix ? `${prefix}.${k}` : k;
      if (v && typeof v === "object" && !Array.isArray(v)) {
        out.push(...flattenKeys(v, path));
      } else {
        out.push(path);
      }
    }
    return out;
  }
  \<close>
  The function returns the list \<open>out\<close> or ends with what \<open>Object.entries\<close> throws.  The loop
  appends what each entry yields, in order; a throw in a recursive call would end it.
\<close>

definition orEmpty :: "jsval \<Rightarrow> jsval" where
  "orEmpty obj = (if truthy obj then obj else JObj [])"

definition joinPath :: "string \<Rightarrow> string \<Rightarrow> string" where
  "joinPath prefix k = (if prefix \<noteq> [] then prefix @ ''.'' @ k else k)"

fun pushAll :: "('e + 'a list) list \<Rightarrow> 'e + 'a list" where
  "pushAll [] = Inr []"
| "pushAll (Inl e # rs) = Inl e"
| "pushAll (Inr xs # rs) = (case pushAll rs of Inl e \<Rightarrow> Inl e | Inr ys \<Rightarrow> Inr (xs @ ys))"

lemma size_in_props:
  "(k, v) \<in> set kvs \<Longrightarrow> size v < Suc (size_list (size_prod (\<lambda>x. 0) size) kvs)"
  by (induction kvs) auto

lemma size_in_elems: "v \<in> set xs \<Longrightarrow> size v < Suc (size_list size xs)"
  by (induction xs) auto

lemma entries_size:
  "entries obj = Inr kvs \<Longrightarrow> (k, v) \<in> set kvs \<Longrightarrow> isPlainObject v \<Longrightarrow> size v < size obj"
proof (cases obj)
  case (JObj kvs')
  assume "entries obj = Inr kvs" and "(k, v) \<in> set kvs"
  with JObj show ?thesis using size_in_props [of k v kvs] by simp
next
  case (JArr xs)
  assume "entries obj = Inr kvs" and "(k, v) \<in> set kvs"
  with JArr have "v \<in> set xs" by (auto dest: set_zip_rightD)
  with JArr show ?thesis using size_in_elems [of v xs] by simp
next
  case (JStr s)
  assume "entries obj = Inr kvs" and "(k, v) \<in> set kvs" and "isPlainObject v"
  with JStr show ?thesis by (auto dest!: set_zip_rightD)
qed auto

function flattenKeys :: "jsval \<Rightarrow> string \<Rightarrow> jsval + string list" where
  "flattenKeys obj prefix =
     (case entries (orEmpty obj) of
        Inl e \<Rightarrow> Inl e
      | Inr kvs \<Rightarrow>
          pushAll (map (\<lambda>(k, v).
             if isPlainObject v then flattenKeys v (joinPath prefix k)
             else Inr [joinPath prefix k]) kvs))"
  by pat_completeness auto
termination
proof (relation "measure (\<lambda>(obj, prefix). size obj)")
  show "wf (measure (\<lambda>(obj, prefix). size obj))" by simp
next
  fix obj :: jsval and prefix :: string and kvs x k v
  assume "entries (orEmpty obj) = Inr kvs" and "x \<in> set kvs" and "(k, v) = x"
    and "isPlainObject v"
  then have "size v < size obj"
    using entries_size [of obj kvs k v] entries_size [of "JObj []" kvs k v]
    by (auto simp: orEmpty_def split: if_splits)
  then show "((v, joinPath prefix k), (obj, prefix)) \<in> measure (\<lambda>(obj, prefix). size obj)"
    by simp
qed

declare flattenKeys.simps [simp del]

lemma pushAll_returns: "pushAll (map (\<lambda>x. Inr (f x)) xs) = Inr (concat (map f xs))"
  by (induction xs) simp_all

lemma flattenKeys_obj:
  "flattenKeys (JObj kvs) p =
     pushAll (map (\<lambda>(k, v).
        if isPlainObject v then flattenKeys v (joinPath p k) else Inr [joinPath p k]) kvs)"
  by (subst flattenKeys.simps) (simp add: orEmpty_def)

text \<open>
  The guard \<open>obj || {}\<close> leaves \<open>Object.entries\<close> nothing to throw on, and the recursion
  only enters mappings: \<open>flattenKeys\<close> returns a list for every argument.
\<close>

lemma entries_orEmpty: "\<exists>kvs. entries (orEmpty obj) = Inr kvs"
  by (cases obj) (simp_all add: orEmpty_def)

lemma pushAll_all_return:
  "\<forall>r \<in> set rs. \<exists>xs. r = Inr xs \<Longrightarrow> \<exists>ys. pushAll rs = Inr ys"
proof (induction rs)
  case Nil
  then show ?case by simp
next
  case (Cons r rs)
  then obtain xs ys where "r = Inr xs" "pushAll rs = Inr ys" by auto
  then show ?case by simp
qed

lemma flattenKeys_returns: "\<exists>ks. flattenKeys obj p = Inr ks"
proof (induction obj p rule: flattenKeys.induct)
  case (1 obj p)
  obtain kvs where kvs: "entries (orEmpty obj) = Inr kvs"
    using entries_orEmpty by blast
  have "\<exists>xs. (case e of (k, v) \<Rightarrow>
           if isPlainObject v then flattenKeys v (joinPath p k) else Inr [joinPath p k]) = Inr xs"
    if e: "e \<in> set kvs" for e
  proof (cases e)
    case (Pair k v)
    show ?thesis
    proof (cases "isPlainObject v")
      case True
      have "\<exists>ks. flattenKeys v (joinPath p k) = Inr ks"
      proof (rule "1.IH" [of kvs e k v])
        show "(k, v) = e" using Pair by simp
      qed (fact kvs e True)+
      with Pair True show ?thesis by simp
    next
      case False
      with Pair show ?thesis by simp
    qed
  qed
  then have "\<exists>ys. pushAll (map (\<lambda>(k, v).
         if isPlainObject v then flattenKeys v (joinPath p k) else Inr [joinPath p k]) kvs) = Inr ys"
    by (intro pushAll_all_return) auto
  then show ?case by (subst flattenKeys.simps) (simp add: kvs)
qed

lemma flattenKeys_projr: "flattenKeys obj p = Inr (projr (flattenKeys obj p))"
  using flattenKeys_returns [of obj p] by auto

subsection \<open>Leaves of a nested mapping, as the specification describes them\<close>

text \<open>
  The specification's flattening rule, stated on key sequences: for each key of a mapping,
  a value that is a non-array mapping contributes the leaves of that mapping below the key,
  and any other value (an array included) makes the key itself a leaf.  A leaf is named by
  the sequence of keys that leads to it; its dot-path joins those keys with a dot.
\<close>

fun props :: "jsval \<Rightarrow> (string \<times> jsval) list" where
  "props (JObj kvs) = kvs"
| "props _ = []"

lemma props_size: "(k, v) \<in> set (props obj) \<Longrightarrow> size v < size obj"
  using size_in_props [of k v] by (cases obj) auto

function leafPaths :: "jsval \<Rightarrow> string list list" where
  "leafPaths obj =
     concat (map (\<lambda>(k, v).
        if isPlainObject v then map ((#) k) (leafPaths v) else [[k]])
      (props obj))"
  by pat_completeness auto
termination
proof (relation "measure size")
  show "wf (measure (size :: jsval \<Rightarrow> nat))" by simp
next
  fix obj :: jsval and x :: "string \<times> jsval" and k v
  assume "x \<in> set (props obj)" and "(k, v) = x" and "isPlainObject v"
  then have "size v < size obj"
    using props_size [of k v obj] by simp
  then show "(v, obj) \<in> measure size" by simp
qed

declare leafPaths.simps [simp del]

lemma leafPaths_obj:
  "leafPaths (JObj kvs) =
     concat (map (\<lambda>(k, v). if isPlainObject v then map ((#) k) (leafPaths v) else [[k]]) kvs)"
  by (subst leafPaths.simps) simp

definition dotPath :: "string list \<Rightarrow> string" where
  "dotPath ks = joinWith ''.'' ks"

text \<open>
  Keys that are safe for dot-paths: at every depth reached through mappings, a key is
  non-empty and holds no dot, and the keys of one mapping are distinct (as the property
  names of a JavaScript object are).
\<close>

fun simpleKeys :: "jsval \<Rightarrow> bool" where
  "simpleKeys (JObj kvs) =
     (distinct (map fst kvs) \<and>
      (\<forall>(k, v) \<in> set kvs. k \<noteq> [] \<and> CHR ''.'' \<notin> set k \<and> simpleKeys v))"
| "simpleKeys _ = True"

lemma leafPaths_nonempty: "ks \<in> set (leafPaths obj) \<Longrightarrow> ks \<noteq> []"
  by (subst (asm) leafPaths.simps) (auto split: if_splits)

lemma dotPath_Cons: "ks \<noteq> [] \<Longrightarrow> dotPath (k # ks) = k @ ''.'' @ dotPath ks"
  by (cases ks) (simp_all add: dotPath_def)

lemma joinPath_nonempty: "k \<noteq> [] \<Longrightarrow> joinPath p k \<noteq> []"
  by (simp add: joinPath_def)

lemma plain_entries: "isPlainObject obj \<Longrightarrow> entries (orEmpty obj) = Inr (props obj)"
  by (cases obj) (simp_all add: orEmpty_def)

lemma simpleKeys_entry:
  "isPlainObject obj \<Longrightarrow> simpleKeys obj \<Longrightarrow> (k, v) \<in> set (props obj) \<Longrightarrow>
   k \<noteq> [] \<and> CHR ''.'' \<notin> set k \<and> simpleKeys v"
  by (cases obj) auto

lemma simpleKeys_distinct:
  "isPlainObject obj \<Longrightarrow> simpleKeys obj \<Longrightarrow> distinct (map fst (props obj))"
  by (cases obj) auto

lemma flattenKeys_leafPaths_gen:
  "isPlainObject obj \<Longrightarrow> simpleKeys obj \<Longrightarrow>
   flattenKeys obj p = Inr (map (\<lambda>ks. joinPath p (dotPath ks)) (leafPaths obj))"
proof (induction obj p rule: flattenKeys.induct)
  case (1 obj p)
  have en: "entries (orEmpty obj) = Inr (props obj)"
    using "1.prems" by (simp add: plain_entries)
  have "(case e of (k, v) \<Rightarrow>
           if isPlainObject v then flattenKeys v (joinPath p k) else Inr [joinPath p k]) =
        Inr (map (\<lambda>ks. joinPath p (dotPath ks))
          (case e of (k, v) \<Rightarrow> if isPlainObject v then map ((#) k) (leafPaths v) else [[k]]))"
    if e: "e \<in> set (props obj)" for e
  proof (cases e)
    case (Pair k v)
    from e Pair "1.prems" have k: "k \<noteq> []" and sv: "simpleKeys v"
      using simpleKeys_entry [of obj k v] by auto
    show ?thesis
    proof (cases "isPlainObject v")
      case False
      with Pair show ?thesis by (simp add: dotPath_def)
    next
      case True
      have "flattenKeys v (joinPath p k) =
              Inr (map (\<lambda>ks. joinPath (joinPath p k) (dotPath ks)) (leafPaths v))"
      proof (rule "1.IH" [of "props obj" e k v])
        show "(k, v) = e" using Pair by simp
      qed (fact en e True sv)+
      moreover have "joinPath (joinPath p k) (dotPath ks) = joinPath p (dotPath (k # ks))"
        if "ks \<in> set (leafPaths v)" for ks
        using leafPaths_nonempty [OF that] k by (simp add: dotPath_Cons joinPath_def)
      ultimately show ?thesis using Pair True by (simp add: comp_def)
    qed
  qed
  then have H: "map (\<lambda>e. case e of (k, v) \<Rightarrow>
           if isPlainObject v then flattenKeys v (joinPath p k) else Inr [joinPath p k]) (props obj) =
        map (\<lambda>e. Inr (map (\<lambda>ks. joinPath p (dotPath ks))
          (case e of (k, v) \<Rightarrow> if isPlainObject v then map ((#) k) (leafPaths v) else [[k]])))
          (props obj)"
    by (intro map_cong refl)
  have L: "flattenKeys obj p = pushAll (map (\<lambda>e. case e of (k, v) \<Rightarrow>
           if isPlainObject v then flattenKeys v (joinPath p k) else Inr [joinPath p k]) (props obj))"
    by (subst flattenKeys.simps) (simp add: en)
  have R: "leafPaths obj = concat (map (\<lambda>e. case e of (k, v) \<Rightarrow>
           if isPlainObject v then map ((#) k) (leafPaths v) else [[k]]) (props obj))"
    by (subst leafPaths.simps) simp
  show ?case
    by (subst L, subst R, subst H, subst pushAll_returns)
       (simp only: map_concat map_map comp_def)
qed

lemma takeWhile_dot:
  "CHR ''.'' \<notin> set a \<Longrightarrow> r = [] \<or> hd r = CHR ''.'' \<Longrightarrow>
   takeWhile (\<lambda>c. c \<noteq> CHR ''.'') (a @ r) = a"
proof (cases r)
  case Nil
  assume "CHR ''.'' \<notin> set a"
  with Nil show ?thesis by (simp add: takeWhile_eq_all_conv) metis
next
  case (Cons c r')
  assume "CHR ''.'' \<notin> set a" and "r = [] \<or> hd r = CHR ''.''"
  with Cons show ?thesis by (induction a) auto
qed

lemma dotPath_shape: "dotPath (k # ks) = k @ (if ks = [] then [] else ''.'' @ dotPath ks)"
  by (cases ks) (simp_all add: dotPath_def)

lemma dotPath_inj:
  "ks \<noteq> [] \<Longrightarrow> ks' \<noteq> [] \<Longrightarrow> \<forall>k \<in> set ks. CHR ''.'' \<notin> set k \<Longrightarrow>
   \<forall>k \<in> set ks'. CHR ''.'' \<notin> set k \<Longrightarrow> dotPath ks = dotPath ks' \<Longrightarrow> ks = ks'"
proof (induction ks arbitrary: ks')
  case Nil
  then show ?case by simp
next
  case (Cons k ks)
  from Cons.prems obtain k' ks'' where ks': "ks' = k' # ks''" by (cases ks') auto
  let ?r = "if ks = [] then [] else ''.'' @ dotPath ks"
  let ?r' = "if ks'' = [] then [] else ''.'' @ dotPath ks''"
  from Cons.prems ks' have eq: "k @ ?r = k' @ ?r'" by (simp only: dotPath_shape)
  have "takeWhile (\<lambda>c. c \<noteq> CHR ''.'') (k @ ?r) = k"
    using Cons.prems by (intro takeWhile_dot) auto
  moreover have "takeWhile (\<lambda>c. c \<noteq> CHR ''.'') (k' @ ?r') = k'"
    using Cons.prems ks' by (intro takeWhile_dot) auto
  ultimately have kk: "k = k'" using eq by simp
  with eq have rr: "?r = ?r'" by simp
  show ?case
  proof (cases "ks = []")
    case True
    with rr have "ks'' = []" by (auto split: if_splits)
    with True kk ks' show ?thesis by simp
  next
    case False
    with rr have ne: "ks'' \<noteq> []" by (auto split: if_splits)
    with False rr have "dotPath ks = dotPath ks''" by simp
    with Cons.IH [of ks''] False ne Cons.prems ks' have "ks = ks''" by simp
    with kk ks' show ?thesis by simp
  qed
qed

lemma leafPaths_keys:
  "isPlainObject obj \<Longrightarrow> simpleKeys obj \<Longrightarrow> ks \<in> set (leafPaths obj) \<Longrightarrow>
   \<forall>k \<in> set ks. CHR ''.'' \<notin> set k"
proof (induction obj arbitrary: ks rule: leafPaths.induct)
  case (1 obj)
  from "1.prems" obtain k v where kv: "(k, v) \<in> set (props obj)"
    and ks: "ks \<in> set (if isPlainObject v then map ((#) k) (leafPaths v) else [[k]])"
    by (subst (asm) (2) leafPaths.simps) auto
  from kv "1.prems" have k: "CHR ''.'' \<notin> set k" and sv: "simpleKeys v"
    using simpleKeys_entry [of obj k v] by auto
  show ?case
  proof (cases "isPlainObject v")
    case False
    with ks k show ?thesis by simp
  next
    case True
    from ks True obtain ks' where ks': "ks = k # ks'" "ks' \<in> set (leafPaths v)" by auto
    have "\<forall>k \<in> set ks'. CHR ''.'' \<notin> set k"
    proof (rule "1.IH" [of "(k, v)" k v ks'])
      show "(k, v) \<in> set (props obj)" by (fact kv)
      show "ks' \<in> set (leafPaths v)" by (fact ks')
    qed (simp_all add: True sv)
    with k ks' show ?thesis by simp
  qed
qed

lemma distinct_blocks:
  "distinct (map fst kvs) \<Longrightarrow>
   \<forall>(k, v) \<in> set kvs. distinct (g k v) \<and> (\<forall>p \<in> set (g k v). p \<noteq> [] \<and> hd p = k) \<Longrightarrow>
   distinct (concat (map (\<lambda>(k, v). g k v) kvs))"
proof (induction kvs)
  case Nil
  then show ?case by simp
next
  case (Cons e kvs)
  obtain k v where e: "e = (k, v)" by (cases e)
  have "set (g k v) \<inter> set (concat (map (\<lambda>(k, v). g k v) kvs)) = {}"
  proof (rule ccontr)
    assume "\<not> ?thesis"
    then obtain p k' v' where p: "p \<in> set (g k v)" and kv': "(k', v') \<in> set kvs"
      and p': "p \<in> set (g k' v')"
      by auto
    from Cons.prems e p have "hd p = k" by auto
    moreover from Cons.prems kv' p' have "hd p = k'" by fastforce
    moreover from Cons.prems e have "k \<notin> fst ` set kvs" by auto
    ultimately show False using kv' by force
  qed
  with Cons e show ?case by auto
qed

lemma leafPaths_distinct:
  "isPlainObject obj \<Longrightarrow> simpleKeys obj \<Longrightarrow> distinct (leafPaths obj)"
proof (induction obj rule: leafPaths.induct)
  case (1 obj)
  let ?g = "\<lambda>k v. if isPlainObject v then map ((#) k) (leafPaths v) else [[k]]"
  have A: "distinct (?g k v)" if kv: "(k, v) \<in> set (props obj)" for k v
  proof (cases "isPlainObject v")
    case True
    from kv "1.prems" have sv: "simpleKeys v"
      using simpleKeys_entry [of obj k v] by auto
    have "distinct (leafPaths v)"
    proof (rule "1.IH" [of "(k, v)" k v])
      show "(k, v) \<in> set (props obj)" by (fact kv)
    qed (simp_all add: True sv)
    then show ?thesis using True by (simp add: distinct_map)
  qed simp
  have B: "p \<noteq> [] \<and> hd p = k" if "p \<in> set (?g k v)" for k v p
    using that by (auto split: if_splits)
  from A B have "\<forall>(k, v) \<in> set (props obj).
          distinct (?g k v) \<and> (\<forall>p \<in> set (?g k v). p \<noteq> [] \<and> hd p = k)"
    by blast
  moreover have "leafPaths obj = concat (map (\<lambda>(k, v). ?g k v) (props obj))"
    by (subst leafPaths.simps) simp
  ultimately show ?case
    using distinct_blocks [of "props obj" ?g] simpleKeys_distinct [of obj] "1.prems"
    by simp
qed

lemma dotPaths_distinct:
  assumes "isPlainObject obj" "simpleKeys obj"
  shows "distinct (map dotPath (leafPaths obj))"
proof -
  have "inj_on dotPath (set (leafPaths obj))"
    by (rule inj_onI) (metis dotPath_inj leafPaths_nonempty leafPaths_keys [OF assms])
  with leafPaths_distinct [OF assms] show ?thesis by (simp add: distinct_map)
qed

lemma pushAll_append:
  "pushAll (rs @ rs') =
     (case pushAll rs of Inl e \<Rightarrow> Inl e
      | Inr xs \<Rightarrow> (case pushAll rs' of Inl e \<Rightarrow> Inl e | Inr ys \<Rightarrow> Inr (xs @ ys)))"
proof (induction rs)
  case Nil
  show ?case by (simp split: sum.splits)
next
  case (Cons r rs)
  then show ?case by (cases r) (simp_all split: sum.splits)
qed

lemma flattenKeys_entry:
  "flattenKeys (JObj (es @ (k, v) # es')) p =
     Inr (projr (flattenKeys (JObj es) p) @
          (if isPlainObject v then projr (flattenKeys v (joinPath p k)) else [joinPath p k]) @
          projr (flattenKeys (JObj es') p))"
proof -
  obtain a where a: "flattenKeys (JObj es) p = Inr a"
    using flattenKeys_returns by blast
  obtain b where b: "flattenKeys (JObj es') p = Inr b"
    using flattenKeys_returns by blast
  obtain c where c: "flattenKeys v (joinPath p k) = Inr c"
    using flattenKeys_returns by blast
  from a b c show ?thesis
    unfolding flattenKeys_obj [of "es @ (k, v) # es'"]
    by (simp add: pushAll_append flattenKeys_obj [symmetric])
qed

text \<open>
  Claim C4, as the code has it.  For a nested mapping whose keys are non-empty and free of
  dots, \<open>flattenKeys\<close> returns the dot-path of every leaf exactly once, in entry order and at
  any nesting depth.  For every mapping, a key whose value is an array is a leaf at its
  own dot-path (the array is not descended into), and a key whose value is a non-array
  mapping contributes the paths of its children and not its own.
\<close>

theorem flattenKeys_leaf_paths_once:
  assumes "isPlainObject obj" and "simpleKeys obj"
  shows "flattenKeys obj [] = Inr (map dotPath (leafPaths obj)) \<and>
         distinct (leafPaths obj) \<and>
         distinct (projr (flattenKeys obj [])) \<and>
         flattenKeys (JObj (es @ (k, JArr xs) # es')) p =
           Inr (projr (flattenKeys (JObj es) p) @ joinPath p k #
                projr (flattenKeys (JObj es') p)) \<and>
         flattenKeys (JObj (es @ (k, JObj m) # es')) p =
           Inr (projr (flattenKeys (JObj es) p) @ projr (flattenKeys (JObj m) (joinPath p k)) @
                projr (flattenKeys (JObj es') p))"
proof -
  have eq: "flattenKeys obj [] = Inr (map dotPath (leafPaths obj))"
    using flattenKeys_leafPaths_gen [OF assms, of "[]"] by (simp add: joinPath_def)
  moreover have "distinct (leafPaths obj)"
    using assms by (rule leafPaths_distinct)
  moreover have "distinct (projr (flattenKeys obj []))"
    using dotPaths_distinct [OF assms] by (simp add: eq)
  moreover have "flattenKeys (JObj (es @ (k, JArr xs) # es')) p =
      Inr (projr (flattenKeys (JObj es) p) @ joinPath p k # projr (flattenKeys (JObj es') p))"
    by (simp add: flattenKeys_entry)
  moreover have "flattenKeys (JObj (es @ (k, JObj m) # es')) p =
      Inr (projr (flattenKeys (JObj es) p) @ projr (flattenKeys (JObj m) (joinPath p k)) @
           projr (flattenKeys (JObj es') p))"
    by (simp add: flattenKeys_entry)
  ultimately show ?thesis by blast
qed

text \<open>
  The payload \<open>{client: {name: "Ada", tags: ["x"]}, total: 3}\<close> of depth two: three leaves,
  the array among them, each listed once.
\<close>

theorem flattenKeys_leaf_paths_once_witness:
  "isPlainObject (JObj [(''client'', JObj [(''name'', JStr ''Ada''), (''tags'', JArr [JStr ''x''])]),
                        (''total'', JNum 3)]) \<and>
   simpleKeys (JObj [(''client'', JObj [(''name'', JStr ''Ada''), (''tags'', JArr [JStr ''x''])]),
                     (''total'', JNum 3)]) \<and>
   flattenKeys (JObj [(''client'', JObj [(''name'', JStr ''Ada''), (''tags'', JArr [JStr ''x''])]),
                      (''total'', JNum 3)]) [] =
     Inr [''client.name'', ''client.tags'', ''total''] \<and>
   distinct (projr (flattenKeys
     (JObj [(''client'', JObj [(''name'', JStr ''Ada''), (''tags'', JArr [JStr ''x''])]),
            (''total'', JNum 3)]) []))"
proof -
  let ?obj = "JObj [(''client'', JObj [(''name'', JStr ''Ada''), (''tags'', JArr [JStr ''x''])]),
                    (''total'', JNum 3)]"
  have h1: "isPlainObject ?obj" by simp
  have h2: "simpleKeys ?obj" by simp
  have h3: "flattenKeys ?obj [] = Inr [''client.name'', ''client.tags'', ''total'']"
    by (simp add: flattenKeys_obj joinPath_def)
  have h4: "distinct (projr (flattenKeys ?obj []))"
    using flattenKeys_leaf_paths_once [OF h1 h2] by (rule conjE) (erule conjE, erule conjE)
  from h1 h2 h3 h4 show ?thesis by (intro conjI)
qed

text \<open>
  Claim C4 as stated fails when a key holds a dot: in \<open>{"a.b": 1, a: {b: 2}}\<close> two
  different leaves have the dot-path \<open>a.b\<close>, and the output lists it twice.  (Rows parsed
  from CSV have such keys, as the comment above \<open>flattenKeys\<close> in the source says.)
\<close>

theorem flattenKeys_dotted_key_counterexample:
  "flattenKeys (JObj [(''a.b'', JNum 1), (''a'', JObj [(''b'', JNum 2)])]) [] =
     Inr [''a.b'', ''a.b''] \<and>
   \<not> distinct (projr (flattenKeys (JObj [(''a.b'', JNum 1), (''a'', JObj [(''b'', JNum 2)])]) []))"
  by (simp add: flattenKeys_obj joinPath_def)

section \<open>Structured-document renderer (\<open>docx-templating.js\<close>)\<close>

text \<open>
  \<open>String(v)\<close>, as a template literal interpolates a value.
\<close>

fun toStr :: "jsval \<Rightarrow> string" where
  "toStr JUndefined = ''undefined''"
| "toStr JNull = ''null''"
| "toStr (JBool b) = (if b then ''true'' else ''false'')"
| "toStr (JNum n) = showInt n"
| "toStr (JStr s) = s"
| "toStr (JArr xs) = joinWith '','' (map (\<lambda>x. if nullish x then [] else toStr x) xs)"
| "toStr (JObj _) = ''[object Object]''"

text \<open>
  What a function of the repository throws.  \<open>TemplateParseError\<close> is the class declared in
  \<open>docx-templating.js\<close> (message \<open>TEMPLATE_PARSE_ERROR\<close>), with its \<open>details\<close>, its
  \<open>cause\<close> and the \<open>status\<close> that \<open>mergeTemplate\<close> assigns; \<open>Thrown v\<close> is any other thrown
  value \<open>v\<close>, for which \<open>instanceof TemplateParseError\<close> is false.
\<close>

datatype thrown =
    TemplateParseError (details: jsval) (cause: jsval) (status: jsval)
  | Thrown jsval

text \<open>
  \<^verbatim>\<open>
  const DOCX_OPTIONS = {
    paragraphLoop: true, linebreaks: true, delimiters: { start: "{{", end: "}}" },
    nullGetter: (part) => {
      const tag = part?.value;
      const err = new Error("TEMPLATE_PARSE_ERROR");
      err.details = [{ id: "undefined_tag", explanation: `Tag "${tag}" is undefined` }];
      throw err;
    },
  };
  \<close>
  The hook \<open>nullGetter\<close> either returns the replacement value or throws.
\<close>

record docx_options =
  paragraphLoop :: bool
  linebreaks :: bool
  delimiters :: "string \<times> string"
  nullGetter :: "jsval \<Rightarrow> jsval + jsval"

definition DOCX_OPTIONS :: docx_options where
  "DOCX_OPTIONS =
     \<lparr> paragraphLoop = True,
       linebreaks = True,
       delimiters = (''{{'', ''}}''),
       nullGetter = (\<lambda>part.
         let tag = optProp part ''value'' in
         Inl (JObj [(''message'', JStr ''TEMPLATE_PARSE_ERROR''),
                    (''details'', JArr [JObj
                       [(''id'', JStr ''undefined_tag''),
                        (''explanation'',
                           JStr (''Tag '' @ [CHR 0x22] @ toStr tag @ [CHR 0x22] @ '' is undefined''))]])])) \<rparr>"

text \<open>
  \<^verbatim>\<open>
  function isDocxError(e) {
    return !!(e && e.properties && (e.properties.errors || e.properties.id));
  }
  function mapDocxDetails(e) {
    const list = Array.isArray(e.properties?.errors) ? e.properties.errors : [e];
    return list.map((er) => ({ id: er.properties?.id, explanation: er.properties?.explanation,
      xtag: er.properties?.xtag, file: er.properties?.file, offset: er.properties?.offset }));
  }
  \<close>
  Reading a property of \<open>null\<close> or \<open>undefined\<close> throws a \<open>TypeError\<close>; \<open>list.map\<close>
  stops at the first element for which the callback throws.
\<close>

definition isDocxError :: "jsval \<Rightarrow> bool" where
  "isDocxError e =
     (truthy e \<and> truthy (getProp e ''properties'') \<and>
      (truthy (getProp (getProp e ''properties'') ''errors'') \<or>
       truthy (getProp (getProp e ''properties'') ''id'')))"

fun isArray :: "jsval \<Rightarrow> bool" where
  "isArray (JArr _) = True"
| "isArray _ = False"

fun elems :: "jsval \<Rightarrow> jsval list" where
  "elems (JArr xs) = xs"
| "elems _ = []"

definition detail :: "jsval \<Rightarrow> jsval + jsval" where
  "detail er =
     (if nullish er then Inl typeError
      else Inr (JObj
        [(''id'', optProp (getProp er ''properties'') ''id''),
         (''explanation'', optProp (getProp er ''properties'') ''explanation''),
         (''xtag'', optProp (getProp er ''properties'') ''xtag''),
         (''file'', optProp (getProp er ''properties'') ''file''),
         (''offset'', optProp (getProp er ''properties'') ''offset'')]))"

fun mapThrow :: "('a \<Rightarrow> 'e + 'b) \<Rightarrow> 'a list \<Rightarrow> 'e + 'b list" where
  "mapThrow f [] = Inr []"
| "mapThrow f (x # xs) =
     (case f x of
        Inl e \<Rightarrow> Inl e
      | Inr y \<Rightarrow> (case mapThrow f xs of Inl e \<Rightarrow> Inl e | Inr ys \<Rightarrow> Inr (y # ys)))"

definition mapDocxDetails :: "jsval \<Rightarrow> jsval + jsval" where
  "mapDocxDetails e =
     (if nullish e then Inl typeError
      else
        let errs = optProp (getProp e ''properties'') ''errors'';
            list = (if isArray errs then elems errs else [e])
        in (case mapThrow detail list of Inl t \<Rightarrow> Inl t | Inr ds \<Rightarrow> Inr (JArr ds)))"

text \<open>
  The templating library is not part of the repository.  It is a parameter of the model:
  the four calls \<open>renderInternal\<close> makes, each of which returns or throws a value.  The
  options, the hook among them, go to the constructor; \<open>render\<close> updates the document
  object and \<open>generate\<close> stands for \<open>doc.getZip().generate({type: "nodebuffer"})\<close>.
\<close>

record ('z, 'd) docx_engine =
  PizZip :: "string \<Rightarrow> jsval + 'z"
  Docxtemplater :: "'z \<Rightarrow> docx_options \<Rightarrow> jsval + 'd"
  render :: "'d \<Rightarrow> jsval \<Rightarrow> jsval + 'd"
  generate :: "'d \<Rightarrow> jsval + string"

text \<open>
  \<^verbatim>\<open>
  function renderInternal(buffer, data = {}, options = {}) {
    const { allowNulls = false } = options;
    const zip = new PizZip(buffer);
    const docxOpts = allowNulls ? { ...DOCX_OPTIONS, nullGetter: () => "" } : DOCX_OPTIONS;
    const doc = new Docxtemplater(zip, docxOpts);
    try {
      doc.render(data);
    } catch (e) {
      if (isDocxError(e)) throw new TemplateParseError(mapDocxDetails(e), e);
      throw e;
    }
    return doc.getZip().generate({ type: "nodebuffer" });
  }
  \<close>
  Only \<open>doc.render\<close> is inside the \<open>try\<close>; what the two constructors or \<open>generate\<close> throw
  leaves \<open>renderInternal\<close> as it is.
\<close>

definition docxOpts :: "bool \<Rightarrow> docx_options" where
  "docxOpts allowNulls =
     (if allowNulls then DOCX_OPTIONS \<lparr> nullGetter := (\<lambda>part. Inr (JStr [])) \<rparr>
      else DOCX_OPTIONS)"

definition renderInternal ::
  "('z, 'd) docx_engine \<Rightarrow> string \<Rightarrow> jsval \<Rightarrow> bool \<Rightarrow> thrown + string" where
  "renderInternal E buffer data0 allowNulls =
     (let data = (if data0 = JUndefined then JObj [] else data0) in
      case PizZip E buffer of
        Inl e \<Rightarrow> Inl (Thrown e)
      | Inr z \<Rightarrow>
         (case Docxtemplater E z (docxOpts allowNulls) of
            Inl e \<Rightarrow> Inl (Thrown e)
          | Inr doc \<Rightarrow>
             (case render E doc data of
                Inl e \<Rightarrow>
                  (if isDocxError e then
                     (case mapDocxDetails e of
                        Inl t \<Rightarrow> Inl (Thrown t)
                      | Inr ds \<Rightarrow> Inl (TemplateParseError ds e JUndefined))
                   else Inl (Thrown e))
              | Inr doc' \<Rightarrow>
                 (case generate E doc' of
                    Inl e \<Rightarrow> Inl (Thrown e)
                  | Inr out \<Rightarrow> Inr out))))"

text \<open>
  \<^verbatim>\<open>
  function lintDocxBuffer(buffer) {
    try {
      renderInternal(buffer, {}, { allowNulls: true });
      return [];
    } catch (e) {
      if (e instanceof TemplateParseError) return e.details;
      return [{ id: "unknown_error", explanation: e.message }];
    }
  }
  function renderDocxBufferOrThrow(templateBuffer, data) {
    return renderInternal(templateBuffer, data);
  }
  \<close>
\<close>

definition lintDocxBuffer :: "('z, 'd) docx_engine \<Rightarrow> string \<Rightarrow> thrown + jsval" where
  "lintDocxBuffer E buffer =
     (case renderInternal E buffer (JObj []) True of
        Inr out \<Rightarrow> Inr (JArr [])
      | Inl (TemplateParseError ds c s) \<Rightarrow> Inr ds
      | Inl (Thrown e) \<Rightarrow>
          (if nullish e then Inl (Thrown typeError)
           else Inr (JArr [JObj [(''id'', JStr ''unknown_error''),
                                 (''explanation'', getProp e ''message'')]])))"

definition renderDocxBufferOrThrow ::
  "('z, 'd) docx_engine \<Rightarrow> string \<Rightarrow> jsval \<Rightarrow> thrown + string" where
  "renderDocxBufferOrThrow E templateBuffer data = renderInternal E templateBuffer data False"

text \<open>
  The first value a run of the library throws, in the order \<open>renderInternal\<close> calls it
  (\<open>None\<close> when all four calls return): a template is structurally valid for the library
  exactly when a lint-mode run has no such value.
\<close>

definition engineFailure ::
  "('z, 'd) docx_engine \<Rightarrow> string \<Rightarrow> docx_options \<Rightarrow> jsval \<Rightarrow> jsval option" where
  "engineFailure E buffer opts data =
     (case PizZip E buffer of
        Inl e \<Rightarrow> Some e
      | Inr z \<Rightarrow>
         (case Docxtemplater E z opts of
            Inl e \<Rightarrow> Some e
          | Inr doc \<Rightarrow>
             (case render E doc data of
                Inl e \<Rightarrow> Some e
              | Inr doc' \<Rightarrow> (case generate E doc' of Inl e \<Rightarrow> Some e | Inr out \<Rightarrow> None))))"

text \<open>
  What the library throws is an object, and a batch of sub-errors is not empty.
\<close>

definition engineErrorOk :: "jsval \<Rightarrow> bool" where
  "engineErrorOk e =
     (\<not> nullish e \<and>
      (case getProp (getProp e ''properties'') ''errors'' of JArr xs \<Rightarrow> xs \<noteq> [] | _ \<Rightarrow> True))"

lemma mapThrow_nonempty: "mapThrow f xs = Inr ys \<Longrightarrow> xs \<noteq> [] \<Longrightarrow> ys \<noteq> []"
  by (cases xs) (auto split: sum.splits)

lemma mapDocxDetails_array:
  assumes "mapDocxDetails e = Inr ds" and "engineErrorOk e"
  shows "\<exists>d r. ds = JArr (d # r)"
proof -
  let ?errs = "optProp (getProp e ''properties'') ''errors''"
  let ?list = "if isArray ?errs then elems ?errs else [e]"
  from assms obtain ys where ys: "mapThrow detail ?list = Inr ys" and ds: "ds = JArr ys"
    by (auto simp: mapDocxDetails_def Let_def split: if_splits sum.splits)
  have "?list \<noteq> []"
  proof (cases "isArray ?errs")
    case True
    then obtain xs where xs: "?errs = JArr xs" by (cases ?errs) auto
    then have "getProp (getProp e ''properties'') ''errors'' = JArr xs"
      by (auto simp: optProp_def split: if_splits)
    with assms(2) have "xs \<noteq> []" by (simp add: engineErrorOk_def)
    with True xs show ?thesis by simp
  qed simp
  with ys have "ys \<noteq> []" by (rule mapThrow_nonempty)
  with ds show ?thesis by (cases ys) auto
qed

lemma mapDocxDetails_is_array: "mapDocxDetails e = Inr ds \<Longrightarrow> \<exists>ys. ds = JArr ys"
  by (auto simp: mapDocxDetails_def Let_def split: if_splits sum.splits)

lemma nullish_typeError [simp]: "\<not> nullish typeError"
  by (simp add: typeError_def newError_def)

lemma mapThrow_detail_error: "mapThrow detail xs = Inl t \<Longrightarrow> t = typeError"
  by (induction xs arbitrary: t) (auto simp: detail_def split: sum.splits if_splits)

lemma mapDocxDetails_error: "mapDocxDetails e = Inl t \<Longrightarrow> t = typeError"
  by (auto simp: mapDocxDetails_def Let_def detail_def split: if_splits sum.splits
           dest: mapThrow_detail_error)

lemma renderInternal_PizZip_throws:
  "PizZip E b = Inl e \<Longrightarrow> renderInternal E b d a = Inl (Thrown e)"
  by (simp add: renderInternal_def)

lemma renderInternal_constructor_throws:
  "PizZip E b = Inr z \<Longrightarrow> Docxtemplater E z (docxOpts a) = Inl e \<Longrightarrow>
   renderInternal E b d a = Inl (Thrown e)"
  by (simp add: renderInternal_def)

lemma renderInternal_render_throws:
  "PizZip E b = Inr z \<Longrightarrow> Docxtemplater E z (docxOpts a) = Inr doc \<Longrightarrow>
   render E doc (if d = JUndefined then JObj [] else d) = Inl e \<Longrightarrow>
   renderInternal E b d a =
     (if isDocxError e then
        (case mapDocxDetails e of
           Inl t \<Rightarrow> Inl (Thrown t)
         | Inr ds \<Rightarrow> Inl (TemplateParseError ds e JUndefined))
      else Inl (Thrown e))"
  by (simp add: renderInternal_def)

lemma renderInternal_generate:
  "PizZip E b = Inr z \<Longrightarrow> Docxtemplater E z (docxOpts a) = Inr doc \<Longrightarrow>
   render E doc (if d = JUndefined then JObj [] else d) = Inr doc' \<Longrightarrow>
   renderInternal E b d a = (case generate E doc' of Inl e \<Rightarrow> Inl (Thrown e) | Inr out \<Rightarrow> Inr out)"
  by (simp add: renderInternal_def)

lemma lint_of_thrown:
  "renderInternal E buf (JObj []) True = Inl (Thrown e) \<Longrightarrow> \<not> nullish e \<Longrightarrow>
   \<exists>d ds. lintDocxBuffer E buf = Inr (JArr (d # ds))"
  by (simp add: lintDocxBuffer_def)

text \<open>
  Claim C9.  In lint mode the hook returns the empty string for every tag, so only the
  library itself can fail.  When it throws objects (never \<open>null\<close> or \<open>undefined\<close>) and
  its batches of sub-errors are not empty, \<open>lintDocxBuffer\<close> never throws: it returns the
  empty list for a template the library accepts with an empty data object, and a non-empty
  list of diagnostics whenever the library fails.
\<close>

theorem lintDocxBuffer_never_throws:
  assumes ok: "\<forall>e. engineFailure E buf (docxOpts True) (JObj []) = Some e \<longrightarrow> engineErrorOk e"
  shows "nullGetter (docxOpts True) part = Inr (JStr []) \<and>
         (engineFailure E buf (docxOpts True) (JObj []) = None \<longrightarrow>
            lintDocxBuffer E buf = Inr (JArr [])) \<and>
         (engineFailure E buf (docxOpts True) (JObj []) \<noteq> None \<longrightarrow>
            (\<exists>d ds. lintDocxBuffer E buf = Inr (JArr (d # ds))))"
proof (intro conjI impI)
  show "nullGetter (docxOpts True) part = Inr (JStr [])" by (simp add: docxOpts_def)
next
  assume "engineFailure E buf (docxOpts True) (JObj []) = None"
  then show "lintDocxBuffer E buf = Inr (JArr [])"
    by (auto simp: engineFailure_def lintDocxBuffer_def renderInternal_def split: sum.splits)
next
  assume "engineFailure E buf (docxOpts True) (JObj []) \<noteq> None"
  then obtain e where e: "engineFailure E buf (docxOpts True) (JObj []) = Some e" by auto
  with ok have eok: "engineErrorOk e" by simp
  then have nn: "\<not> nullish e" by (simp add: engineErrorOk_def)
  show "\<exists>d ds. lintDocxBuffer E buf = Inr (JArr (d # ds))"
  proof (cases "PizZip E buf")
    case (Inl e1)
    with e have "e1 = e" by (simp add: engineFailure_def)
    with Inl nn show ?thesis by (intro lint_of_thrown) (simp_all add: renderInternal_PizZip_throws)
  next
    case z: (Inr z)
    show ?thesis
    proof (cases "Docxtemplater E z (docxOpts True)")
      case (Inl e1)
      with e z have "e1 = e" by (simp add: engineFailure_def)
      with Inl z nn show ?thesis
        by (intro lint_of_thrown) (simp_all add: renderInternal_constructor_throws)
    next
      case doc: (Inr doc)
      show ?thesis
      proof (cases "render E doc (JObj [])")
        case (Inl e1)
        with e z doc have e1: "e1 = e" by (simp add: engineFailure_def)
        have ri: "renderInternal E buf (JObj []) True =
           (if isDocxError e then
              (case mapDocxDetails e of
                 Inl t \<Rightarrow> Inl (Thrown t)
               | Inr ds \<Rightarrow> Inl (TemplateParseError ds e JUndefined))
            else Inl (Thrown e))"
          using renderInternal_render_throws [OF z doc, of "JObj []" e] Inl e1 by simp
        show ?thesis
        proof (cases "isDocxError e")
          case False
          with ri nn show ?thesis by (intro lint_of_thrown) simp_all
        next
          case True
          show ?thesis
          proof (cases "mapDocxDetails e")
            case (Inl t)
            then have "t = typeError" by (rule mapDocxDetails_error)
            with Inl True ri have "renderInternal E buf (JObj []) True = Inl (Thrown typeError)"
              by simp
            then show ?thesis by (rule lint_of_thrown) (rule nullish_typeError)
          next
            case (Inr ds)
            from mapDocxDetails_array [OF Inr eok] obtain d r where "ds = JArr (d # r)" by auto
            with Inr True ri show ?thesis by (simp add: lintDocxBuffer_def)
          qed
        qed
      next
        case doc': (Inr doc')
        show ?thesis
        proof (cases "generate E doc'")
          case (Inl e1)
          with e z doc doc' have "e1 = e" by (simp add: engineFailure_def)
          with Inl nn show ?thesis
            using renderInternal_generate [OF z doc, of "JObj []" doc'] doc'
            by (intro lint_of_thrown) simp_all
        next
          case (Inr out)
          with e z doc doc' show ?thesis by (simp add: engineFailure_def)
        qed
      qed
    qed
  qed
qed



subsection \<open>The test double of the repository\<close>

text \<open>
  \<open>src/__mocks__/docxtemplater.js\<close>: the constructor does nothing, \<open>render\<close> throws
  \<open>state.throwShape || new Error("boom")\<close> when \<open>state.shouldThrow\<close> is set, and
  \<open>getZip().generate()\<close> returns the bytes \<open>DOCX_OUT\<close>.  The archive reader is mocked
  as well and accepts every buffer.
\<close>

definition DocxMock :: "bool \<Rightarrow> jsval \<Rightarrow> (string, unit) docx_engine" where
  "DocxMock shouldThrow throwShape =
     \<lparr> PizZip = (\<lambda>buffer. Inr buffer),
       Docxtemplater = (\<lambda>z opts. Inr ()),
       render = (\<lambda>doc data.
          if shouldThrow then Inl (if truthy throwShape then throwShape else newError ''boom'')
          else Inr ()),
       generate = (\<lambda>doc. Inr ''DOCX_OUT'') \<rparr>"

text \<open>The error of the test \<open>lintDocxBuffer maps Docxtemplater error details\<close>.\<close>

definition duplicateOpenTag :: jsval where
  "duplicateOpenTag =
     JObj [(''properties'', JObj
       [(''id'', JStr ''duplicate_open_tag''),
        (''explanation'', JStr ''Duplicate open tag''),
        (''xtag'', JStr ''{{ name''),
        (''file'', JStr ''word/document.xml''),
        (''offset'', JNum 42),
        (''errors'', JArr [JObj [(''properties'', JObj
           [(''id'', JStr ''duplicate_open_tag''),
            (''explanation'', JStr ''Duplicate open tag''),
            (''xtag'', JStr ''{{ name''),
            (''file'', JStr ''word/document.xml''),
            (''offset'', JNum 42)])]])])]"

theorem lintDocxBuffer_never_throws_witness:
  "engineFailure (DocxMock True duplicateOpenTag) ''fake-docx'' (docxOpts True) (JObj []) =
     Some duplicateOpenTag \<and>
   engineErrorOk duplicateOpenTag \<and>
   lintDocxBuffer (DocxMock True duplicateOpenTag) ''fake-docx'' =
     Inr (JArr [JObj [(''id'', JStr ''duplicate_open_tag''),
                      (''explanation'', JStr ''Duplicate open tag''),
                      (''xtag'', JStr ''{{ name''),
                      (''file'', JStr ''word/document.xml''),
                      (''offset'', JNum 42)]]) \<and>
   (\<exists>d ds. lintDocxBuffer (DocxMock True duplicateOpenTag) ''fake-docx'' = Inr (JArr (d # ds))) \<and>
   lintDocxBuffer (DocxMock False JNull) ''fake-docx'' = Inr (JArr [])"
proof -
  let ?E = "DocxMock True duplicateOpenTag"
  have f: "engineFailure ?E ''fake-docx'' (docxOpts True) (JObj []) = Some duplicateOpenTag"
    by (simp add: engineFailure_def DocxMock_def duplicateOpenTag_def)
  have ok: "engineErrorOk duplicateOpenTag"
    by (simp add: engineErrorOk_def duplicateOpenTag_def)
  have h: "\<forall>e. engineFailure ?E ''fake-docx'' (docxOpts True) (JObj []) = Some e \<longrightarrow> engineErrorOk e"
    using f ok by simp
  have nonempty: "\<exists>d ds. lintDocxBuffer ?E ''fake-docx'' = Inr (JArr (d # ds))"
    using lintDocxBuffer_never_throws [OF h] f by simp
  have res: "lintDocxBuffer ?E ''fake-docx'' =
     Inr (JArr [JObj [(''id'', JStr ''duplicate_open_tag''),
                      (''explanation'', JStr ''Duplicate open tag''),
                      (''xtag'', JStr ''{{ name''),
                      (''file'', JStr ''word/document.xml''),
                      (''offset'', JNum 42)]])"
    by (simp add: lintDocxBuffer_def renderInternal_def DocxMock_def duplicateOpenTag_def
        isDocxError_def mapDocxDetails_def detail_def optProp_def)
  have h0: "\<forall>e. engineFailure (DocxMock False JNull) ''fake-docx'' (docxOpts True) (JObj []) = Some e
              \<longrightarrow> engineErrorOk e"
    by (simp add: engineFailure_def DocxMock_def)
  have empty: "lintDocxBuffer (DocxMock False JNull) ''fake-docx'' = Inr (JArr [])"
    using lintDocxBuffer_never_throws [OF h0] by (simp add: engineFailure_def DocxMock_def)
  from f ok res nonempty empty show ?thesis by (intro conjI)
qed

subsection \<open>Strict rendering of a tag without a value\<close>

text \<open>
  What \<open>renderInternal\<close> does with an error of the library's shape thrown by \<open>render\<close>, and
  with any other value thrown there.
\<close>

lemma renderDocxBufferOrThrow_docx_error:
  "PizZip E b = Inr z \<Longrightarrow> Docxtemplater E z DOCX_OPTIONS = Inr doc \<Longrightarrow>
   render E doc (if d = JUndefined then JObj [] else d) = Inl e \<Longrightarrow>
   isDocxError e \<Longrightarrow> mapDocxDetails e = Inr ds \<Longrightarrow>
   renderDocxBufferOrThrow E b d = Inl (TemplateParseError ds e JUndefined)"
  using renderInternal_render_throws [of E b z False doc d e]
  by (simp add: renderDocxBufferOrThrow_def docxOpts_def)

lemma renderDocxBufferOrThrow_other_error:
  "PizZip E b = Inr z \<Longrightarrow> Docxtemplater E z DOCX_OPTIONS = Inr doc \<Longrightarrow>
   render E doc (if d = JUndefined then JObj [] else d) = Inl e \<Longrightarrow>
   \<not> isDocxError e \<Longrightarrow>
   renderDocxBufferOrThrow E b d = Inl (Thrown e)"
  using renderInternal_render_throws [of E b z False doc d e]
  by (simp add: renderDocxBufferOrThrow_def docxOpts_def)

lemma strict_nullGetter_not_docx_error:
  "nullGetter DOCX_OPTIONS part = Inl e \<Longrightarrow> \<not> isDocxError e"
  by (auto simp: DOCX_OPTIONS_def isDocxError_def Let_def)

text \<open>
  A library with the calling convention of Docxtemplater, cut down to a template that is one
  tag \<open>{{name}}\<close>: the value is looked up in the data; for a missing value the hook is
  called, and what the hook throws is not caught.
\<close>

definition tagOf :: "string \<Rightarrow> string option" where
  "tagOf text =
     (if 4 \<le> length text \<and> take 2 text = ''{{'' \<and> drop (length text - 2) text = ''}}''
      then Some (take (length text - 4) (drop 2 text)) else None)"

definition tagEngine :: "(string, string \<times> docx_options) docx_engine" where
  "tagEngine =
     \<lparr> PizZip = (\<lambda>buffer. Inr buffer),
       Docxtemplater = (\<lambda>z opts. Inr (z, opts)),
       render = (\<lambda>(text, opts) data.
          case tagOf text of
            None \<Rightarrow> Inr (text, opts)
          | Some tag \<Rightarrow>
              (if nullish (getProp data tag) then
                 (case nullGetter opts (JObj [(''value'', JStr tag)]) of
                    Inl e \<Rightarrow> Inl e
                  | Inr v \<Rightarrow> Inr (toStr v, opts))
               else Inr (toStr (getProp data tag), opts))),
       generate = (\<lambda>(text, opts). Inr text) \<rparr>"


text \<open>
  Claim C1 at the template \<open>{{name}}\<close> with the data \<open>{}\<close>: the strict hook throws a plain
  \<open>Error\<close> that has no \<open>properties\<close>, so \<open>isDocxError\<close> rejects it and \<open>renderInternal\<close>
  rethrows it unchanged.  What reaches the caller is not a \<open>TemplateParseError\<close>, and its
  one diagnostic has an \<open>id\<close> and an \<open>explanation\<close> only.
\<close>

theorem renderDocxBufferOrThrow_undefined_tag:
  "renderDocxBufferOrThrow tagEngine ''{{name}}'' (JObj []) =
     Inl (Thrown (JObj
       [(''message'', JStr ''TEMPLATE_PARSE_ERROR''),
        (''details'', JArr [JObj
           [(''id'', JStr ''undefined_tag''),
            (''explanation'',
               JStr (''Tag '' @ [CHR 0x22] @ ''name'' @ [CHR 0x22] @ '' is undefined''))]])]))"
  by (simp add: renderDocxBufferOrThrow_def renderInternal_def tagEngine_def tagOf_def
      docxOpts_def DOCX_OPTIONS_def optProp_def isDocxError_def)

section \<open>Markup sanitizer (\<open>sanitizeHtmlBuffer\<close>)\<close>

text \<open>
  The document tree the sanitizer works on: elements with their attributes (name and value,
  in document order) and child nodes, text and comments.  A \<open>template\<close> element is a node
  of its own kind: what stands between its tags is not among its child nodes but in a
  separate fragment, its \<open>content\<close>.  \<open>querySelectorAll\<close> walks child nodes and never
  enters that fragment; serialisation writes it out.
\<close>

datatype dom =
    Element (tagName: string) (attributes: "(string \<times> string) list") (childNodes: "dom list")
  | Template (attributes: "(string \<times> string) list") (content: "dom list")
  | Text string
  | Comment string

text \<open>
  The HTML library (JSDOM) is not part of the repository.  The model takes its two ends as
  parameters: the root element of \<open>new JSDOM(htmlBuffer.toString("utf8"))\<close>, as a function
  of the bytes of the buffer, and the bytes of the \<open>outerHTML\<close> of a root element.
\<close>

record html_engine =
  parseDocument :: "string \<Rightarrow> dom"
  outerHTML :: "dom \<Rightarrow> string"

text \<open>
  \<open>toLowerCase\<close> on the letters A to Z.  JavaScript also maps letters outside ASCII, all
  of them to letters outside ASCII but for U+0130 and U+212A, which give \<open>i\<close> (with a
  combining dot) and \<open>k\<close>.  The program compares lower-cased text only with \<open>on\<close>,
  \<open>href\<close> and \<open>src\<close>, where this makes no difference.  The flag \<open>i\<close> of a regular
  expression without the flag \<open>u\<close>, and the comparison of an attribute value in a selector,
  ignore the case of the letters A to Z only.
\<close>

definition lowerChar :: "char \<Rightarrow> char" where
  "lowerChar c =
     (case map_of (zip ''ABCDEFGHIJKLMNOPQRSTUVWXYZ'' ''abcdefghijklmnopqrstuvwxyz'') c of
        Some l \<Rightarrow> l
      | None \<Rightarrow> c)"

definition toLowerCase :: "string \<Rightarrow> string" where
  "toLowerCase s = map lowerChar s"

text \<open>
  The characters that \<open>\s\<close> matches and \<open>trim\<close> removes, by their bytes: U+0009 to U+000D,
  U+0020, U+00A0, U+1680, U+2000 to U+200A, U+2028, U+2029, U+202F, U+205F, U+3000 and
  U+FEFF.  \<open>skipAll ws\<close> removes from the front of a string every byte sequence of \<open>ws\<close>, as
  long as there is one.
\<close>

definition spaceSeqs :: "nat list list" where
  "spaceSeqs =
     [[9], [10], [11], [12], [13], [32], [194, 160], [225, 154, 128],
      [226, 128, 128], [226, 128, 129], [226, 128, 130], [226, 128, 131], [226, 128, 132],
      [226, 128, 133], [226, 128, 134], [226, 128, 135], [226, 128, 136], [226, 128, 137],
      [226, 128, 138], [226, 128, 168], [226, 128, 169], [226, 128, 175], [226, 129, 159],
      [227, 128, 128], [239, 187, 191]]"

definition prefixWidth :: "nat list list \<Rightarrow> string \<Rightarrow> nat" where
  "prefixWidth ws s =
     (case find (\<lambda>w. take (length w) (map of_char s) = w) ws of
        Some w \<Rightarrow> length w
      | None \<Rightarrow> 0)"

lemma prefixWidth_le: "prefixWidth ws s \<le> length s"
proof (cases "find (\<lambda>w. take (length w) (map of_char s) = w) ws")
  case None
  then show ?thesis by (simp add: prefixWidth_def)
next
  case (Some w)
  then have "take (length w) (map of_char s :: nat list) = w" by (auto simp: find_Some_iff)
  then have "length (take (length w) (map of_char s :: nat list)) = length w" by simp
  then have "length w \<le> length s" by simp
  with Some show ?thesis by (simp add: prefixWidth_def)
qed

function skipAll :: "nat list list \<Rightarrow> string \<Rightarrow> string" where
  "skipAll ws s = (if prefixWidth ws s = 0 then s else skipAll ws (drop (prefixWidth ws s) s))"
  by pat_completeness auto
termination
proof (relation "measure (\<lambda>(ws, s). length s)")
  show "wf (measure (\<lambda>(ws, s). length s))" by simp
next
  fix ws :: "nat list list" and s :: string
  assume "prefixWidth ws s \<noteq> 0"
  with prefixWidth_le [of ws s]
  show "((ws, drop (prefixWidth ws s) s), (ws, s)) \<in> measure (\<lambda>(ws, s). length s)"
    by simp
qed

declare skipAll.simps [simp del]

definition skipSpace :: "string \<Rightarrow> string" where
  "skipSpace s = skipAll spaceSeqs s"

definition trim :: "string \<Rightarrow> string" where
  "trim s = rev (skipAll (map rev spaceSeqs) (rev (skipSpace s)))"

text \<open>The tests \<open>/^on/.test(name)\<close> and \<open>/^\s*javascript:/i.test(val)\<close>.\<close>

definition onPrefixed :: "string \<Rightarrow> bool" where
  "onPrefixed name = (take 2 name = ''on'')"

definition javascriptUrl :: "string \<Rightarrow> bool" where
  "javascriptUrl val = (toLowerCase (take 11 (skipSpace val)) = ''javascript:'')"

text \<open>
  \<open>getAttribute\<close> reads, and \<open>removeAttribute\<close> removes, the first attribute of that
  qualified name.  (For an HTML element both lower-case their argument first; the names the
  parser stores are lower-case already.)
\<close>

fun getAttribute :: "(string \<times> string) list \<Rightarrow> string \<Rightarrow> string option" where
  "getAttribute [] n = None"
| "getAttribute ((n', v) # as) n = (if n' = n then Some v else getAttribute as n)"

fun removeAttribute :: "string \<Rightarrow> (string \<times> string) list \<Rightarrow> (string \<times> string) list" where
  "removeAttribute n [] = []"
| "removeAttribute n ((n', v) # as) = (if n' = n then as else (n', v) # removeAttribute n as)"

text \<open>
  \<^verbatim>\<open>
  function sanitizeHtmlBuffer(htmlBuffer) {
    const dom = new JSDOM(htmlBuffer.toString("utf8"));
    const doc = dom.window.document;
    doc.querySelectorAll("script, iframe, object, embed, link[rel='import']")
       .forEach((n) => n.remove());
    doc.querySelectorAll("*").forEach((el) => {
      [...el.attributes].forEach((attr) => {
        const name = attr.name.toLowerCase();
        const val = String(attr.value || "");
        if (/^on/.test(name)) el.removeAttribute(attr.name);
        if ((name === "href" || name === "src") && /^\s*javascript:/i.test(val)) {
          el.removeAttribute(attr.name);
        }
      });
    });
    const htmlOut = "<!DOCTYPE html>\n" + doc.documentElement.outerHTML;
    return Buffer.from(htmlOut, "utf8");
  }
  \<close>
  The selector matches an element by its local name, and a \<open>link\<close> by the value of its
  \<open>rel\<close> attribute, which in an HTML document is compared without regard to the case of
  the letters A to Z.  Removing every match from its parent leaves the tree without the
  matching elements and what is below them.  Were the root itself a match, the document
  would be left without a \<open>documentElement\<close> and reading its \<open>outerHTML\<close> would throw a
  \<open>TypeError\<close>.  The attribute loop runs over a copy of the attribute list and removes from
  the live list.  Neither query reaches the content of a \<open>template\<close> element.
\<close>

fun disallowed :: "dom \<Rightarrow> bool" where
  "disallowed (Element t as cs) =
     (t = ''script'' \<or> t = ''iframe'' \<or> t = ''object'' \<or> t = ''embed'' \<or>
      (t = ''link'' \<and>
       (case getAttribute as ''rel'' of Some v \<Rightarrow> toLowerCase v = ''import'' | None \<Rightarrow> False)))"
| "disallowed _ = False"

fun removeDisallowed :: "dom \<Rightarrow> dom" where
  "removeDisallowed (Element t as cs) =
     Element t as (map removeDisallowed (filter (\<lambda>c. \<not> disallowed c) cs))"
| "removeDisallowed n = n"

definition stripStep ::
  "(string \<times> string) list \<Rightarrow> string \<times> string \<Rightarrow> (string \<times> string) list" where
  "stripStep cur attr =
     (let name = toLowerCase (fst attr);
          val = snd attr;
          cur1 = (if onPrefixed name then removeAttribute (fst attr) cur else cur)
      in if (name = ''href'' \<or> name = ''src'') \<and> javascriptUrl val
         then removeAttribute (fst attr) cur1 else cur1)"

definition stripAttributes :: "(string \<times> string) list \<Rightarrow> (string \<times> string) list" where
  "stripAttributes as = foldl stripStep as as"

fun stripAll :: "dom \<Rightarrow> dom" where
  "stripAll (Element t as cs) = Element t (stripAttributes as) (map stripAll cs)"
| "stripAll (Template as tc) = Template (stripAttributes as) tc"
| "stripAll n = n"

definition sanitizeDocument :: "dom \<Rightarrow> dom" where
  "sanitizeDocument root = stripAll (removeDisallowed root)"

definition sanitizeHtmlBuffer :: "html_engine \<Rightarrow> string \<Rightarrow> jsval + string" where
  "sanitizeHtmlBuffer E htmlBuffer =
     (let root = parseDocument E htmlBuffer in
      if disallowed root then Inl typeError
      else Inr (''<!DOCTYPE html>'' @ [CHR 0x0A] @ outerHTML E (sanitizeDocument root)))"

subsection \<open>What the sanitizer leaves in the tree\<close>

text \<open>
  The elements of a tree in document order (what \<open>querySelectorAll("*")\<close> returns), the
  attributes the attribute loop removes, and the trees a parser builds: attribute names are
  distinct within an element, and the root is the \<open>html\<close> element.
\<close>

fun elements :: "dom \<Rightarrow> dom list" where
  "elements (Element t as cs) = Element t as cs # concat (map elements cs)"
| "elements (Template as tc) = [Template as tc]"
| "elements _ = []"

definition dangerousAttr :: "string \<times> string \<Rightarrow> bool" where
  "dangerousAttr a =
     (onPrefixed (toLowerCase (fst a)) \<or>
      ((toLowerCase (fst a) = ''href'' \<or> toLowerCase (fst a) = ''src'') \<and> javascriptUrl (snd a)))"

fun distinctAttrs :: "dom \<Rightarrow> bool" where
  "distinctAttrs (Element t as cs) = (distinct (map fst as) \<and> (\<forall>c \<in> set cs. distinctAttrs c))"
| "distinctAttrs (Template as tc) = distinct (map fst as)"
| "distinctAttrs _ = True"

lemma removeAttribute_absent: "n \<notin> fst ` set as \<Longrightarrow> removeAttribute n as = as"
  by (induction as) auto

lemma removeAttribute_here:
  "n \<notin> fst ` set pre \<Longrightarrow> removeAttribute n (pre @ (n, v) # post) = pre @ post"
  by (induction pre) auto

lemma stripStep_keep:
  "\<not> dangerousAttr a \<Longrightarrow> stripStep cur a = cur"
  by (auto simp: stripStep_def dangerousAttr_def Let_def)

lemma stripStep_drop:
  "dangerousAttr (n, v) \<Longrightarrow> n \<notin> fst ` set pre \<Longrightarrow> n \<notin> fst ` set post \<Longrightarrow>
   stripStep (pre @ (n, v) # post) (n, v) = pre @ post"
proof -
  assume d: "dangerousAttr (n, v)" and pre: "n \<notin> fst ` set pre" and post: "n \<notin> fst ` set post"
  from pre post have "n \<notin> fst ` set (pre @ post)" by auto
  then have again: "removeAttribute n (pre @ post) = pre @ post" by (rule removeAttribute_absent)
  from pre have here: "removeAttribute n (pre @ (n, v) # post) = pre @ post"
    by (rule removeAttribute_here)
  from d show ?thesis
    by (auto simp: stripStep_def dangerousAttr_def Let_def here again)
qed

lemma foldl_stripStep:
  "distinct (map fst (pre @ ys)) \<Longrightarrow>
   foldl stripStep (pre @ ys) ys = pre @ filter (\<lambda>a. \<not> dangerousAttr a) ys"
proof (induction ys arbitrary: pre)
  case Nil
  then show ?case by simp
next
  case (Cons a ys)
  obtain n v where a: "a = (n, v)" by (cases a)
  show ?case
  proof (cases "dangerousAttr a")
    case True
    from Cons.prems a have "n \<notin> fst ` set pre" "n \<notin> fst ` set ys" by auto
    with True a have "stripStep (pre @ a # ys) a = pre @ ys" by (simp add: stripStep_drop)
    moreover from Cons.prems have "distinct (map fst (pre @ ys))" by simp
    ultimately show ?thesis using Cons.IH [of pre] True by simp
  next
    case False
    then have "stripStep (pre @ a # ys) a = (pre @ [a]) @ ys" by (simp add: stripStep_keep)
    moreover from Cons.prems have "distinct (map fst ((pre @ [a]) @ ys))" by simp
    ultimately show ?thesis using Cons.IH [of "pre @ [a]"] False by simp
  qed
qed

lemma stripAttributes_filter:
  "distinct (map fst as) \<Longrightarrow> stripAttributes as = filter (\<lambda>a. \<not> dangerousAttr a) as"
  using foldl_stripStep [of "[]" as] by (simp add: stripAttributes_def)

text \<open>On distinct attribute names the loop amounts to filtering each attribute list.\<close>

fun keepSafe :: "dom \<Rightarrow> dom" where
  "keepSafe (Element t as cs) = Element t (filter (\<lambda>a. \<not> dangerousAttr a) as) (map keepSafe cs)"
| "keepSafe (Template as tc) = Template (filter (\<lambda>a. \<not> dangerousAttr a) as) tc"
| "keepSafe n = n"

lemma stripAll_keepSafe: "distinctAttrs t \<Longrightarrow> stripAll t = keepSafe t"
  by (induction t) (auto simp: stripAttributes_filter)

lemma rel_not_dangerous: "\<not> dangerousAttr (''rel'', v)"
  by (simp add: dangerousAttr_def toLowerCase_def lowerChar_def onPrefixed_def)

lemma getAttribute_rel_filter:
  "getAttribute (filter (\<lambda>a. \<not> dangerousAttr a) as) ''rel'' = getAttribute as ''rel''"
  by (induction as) (auto simp: rel_not_dangerous)

lemma disallowed_keepSafe [simp]: "disallowed (keepSafe t) = disallowed t"
  by (cases t) (simp_all add: getAttribute_rel_filter)

lemma disallowed_removeDisallowed [simp]: "disallowed (removeDisallowed t) = disallowed t"
  by (cases t) simp_all

lemma removeDisallowed_idem: "removeDisallowed (removeDisallowed t) = removeDisallowed t"
  by (induction t) (auto simp: filter_map comp_def)

lemma keepSafe_idem: "keepSafe (keepSafe t) = keepSafe t"
  by (induction t) auto

lemma removeDisallowed_keepSafe:
  "removeDisallowed (keepSafe t) = keepSafe (removeDisallowed t)"
  by (induction t) (auto simp: filter_map comp_def)

lemma distinctAttrs_removeDisallowed: "distinctAttrs t \<Longrightarrow> distinctAttrs (removeDisallowed t)"
  by (induction t) auto

lemma distinctAttrs_keepSafe: "distinctAttrs t \<Longrightarrow> distinctAttrs (keepSafe t)"
  by (induction t) (auto simp: distinct_map_filter)

lemma sanitizeDocument_keepSafe:
  "distinctAttrs t \<Longrightarrow> sanitizeDocument t = keepSafe (removeDisallowed t)"
  by (simp add: sanitizeDocument_def stripAll_keepSafe distinctAttrs_removeDisallowed)

lemma sanitizeDocument_idem:
  assumes "distinctAttrs t"
  shows "sanitizeDocument (sanitizeDocument t) = sanitizeDocument t"
proof -
  have d: "distinctAttrs (keepSafe (removeDisallowed t))"
    using assms by (simp add: distinctAttrs_removeDisallowed distinctAttrs_keepSafe)
  have "sanitizeDocument (sanitizeDocument t) =
          keepSafe (removeDisallowed (keepSafe (removeDisallowed t)))"
    using assms d by (simp add: sanitizeDocument_keepSafe)
  also have "\<dots> = keepSafe (keepSafe (removeDisallowed (removeDisallowed t)))"
    by (simp add: removeDisallowed_keepSafe)
  also have "\<dots> = keepSafe (removeDisallowed t)"
    by (simp add: keepSafe_idem removeDisallowed_idem)
  finally show ?thesis using assms by (simp add: sanitizeDocument_keepSafe)
qed

lemma elements_keepSafe: "elements (keepSafe t) = map keepSafe (elements t)"
  by (induction t) (auto simp: map_concat comp_def cong: map_cong)

lemma elements_removeDisallowed:
  "\<not> disallowed t \<Longrightarrow> el \<in> set (elements (removeDisallowed t)) \<Longrightarrow> \<not> disallowed el"
proof (induction t arbitrary: el)
  case (Element n as cs)
  from Element.prems(2) consider
      (root) "el = Element n as (map removeDisallowed (filter (\<lambda>c. \<not> disallowed c) cs))"
    | (child) c where "c \<in> set cs" "\<not> disallowed c" "el \<in> set (elements (removeDisallowed c))"
    by auto
  then show ?case
  proof cases
    case root
    with Element.prems(1) show ?thesis by simp
  next
    case (child c)
    then show ?thesis using Element.IH [of c el] by simp
  qed
qed simp_all

lemma elements_are_elements:
  "el \<in> set (elements t) \<Longrightarrow> (\<exists>n as cs. el = Element n as cs) \<or> (\<exists>as tc. el = Template as tc)"
  by (induction t) auto

text \<open>
  What the two passes achieve on the elements they visit: on a tree with distinct attribute
  names whose root is not a match, none of the visited elements is left a match of the
  selector, with a handler attribute or with a script URL in \<open>href\<close> or \<open>src\<close>.  The
  content of a \<open>template\<close> element is not among the visited elements.
\<close>

lemma sanitizeDocument_visited_elements:
  assumes ok: "\<not> disallowed root" and attrs: "distinctAttrs root"
    and el: "el \<in> set (elements (sanitizeDocument root))"
  shows "\<not> disallowed el \<and> (\<forall>a \<in> set (attributes el). \<not> dangerousAttr a)"
proof -
  have "elements (sanitizeDocument root) = map keepSafe (elements (removeDisallowed root))"
    using attrs by (simp add: sanitizeDocument_keepSafe elements_keepSafe)
  with el obtain el0 where el0: "el0 \<in> set (elements (removeDisallowed root))"
    and eq: "el = keepSafe el0"
    by auto
  from ok el0 have "\<not> disallowed el0" by (rule elements_removeDisallowed)
  moreover have "\<forall>a \<in> set (attributes (keepSafe el0)). \<not> dangerousAttr a"
    using elements_are_elements [OF el0] by auto
  ultimately show ?thesis using eq by simp
qed

subsection \<open>A sample HTML engine\<close>

text \<open>
  For concrete runs: \<open>outerHTML\<close> as the HTML standard serialises elements, text and
  comments (void elements have no end tag, the text of raw-text elements is not escaped, a
  \<open>template\<close> element is serialised with its content), and a parser given by its results
  on the six documents used below.  In the fourth, the start tag \<open>plaintext\<close> switches the
  tokenizer to a state that has no end, so the rest of the input, end tags included, is
  text.  In the sixth, the \<open>template\<close> start tag comes before any other and so lands in
  \<open>head\<close>; the \<open>script\<close> and \<open>p\<close> elements between its tags go to its content.
\<close>

function escapeString :: "bool \<Rightarrow> string \<Rightarrow> string" where
  "escapeString attributeMode [] = []"
| "escapeString attributeMode (c # cs) =
     (if c = CHR ''&'' then ''&amp;'' @ escapeString attributeMode cs
      else if c = CHR 0xC2 \<and> take 1 cs = [CHR 0xA0]
        then ''&nbsp;'' @ escapeString attributeMode (drop 1 cs)
      else if attributeMode \<and> c = CHR 0x22 then ''&quot;'' @ escapeString attributeMode cs
      else if \<not> attributeMode \<and> c = CHR ''<'' then ''&lt;'' @ escapeString attributeMode cs
      else if \<not> attributeMode \<and> c = CHR ''>'' then ''&gt;'' @ escapeString attributeMode cs
      else c # escapeString attributeMode cs)"
  by pat_completeness auto
termination
  by (relation "measure (\<lambda>(m, s). length s)") auto

definition escapeText :: "string \<Rightarrow> string" where
  "escapeText s = escapeString False s"

definition escapeAttr :: "string \<Rightarrow> string" where
  "escapeAttr s = escapeString True s"

definition voidElements :: "string list" where
  "voidElements = [''area'', ''base'', ''basefont'', ''bgsound'', ''br'', ''col'', ''embed'',
     ''frame'', ''hr'', ''img'', ''input'', ''keygen'', ''link'', ''meta'', ''param'',
     ''source'', ''track'', ''wbr'']"

definition rawTextElements :: "string list" where
  "rawTextElements = [''style'', ''script'', ''xmp'', ''iframe'', ''noembed'', ''noframes'',
     ''plaintext'']"

definition serializeAttributes :: "(string \<times> string) list \<Rightarrow> string" where
  "serializeAttributes as =
     concat (map (\<lambda>(n, v). '' '' @ n @ ''='' @ [CHR 0x22] @ escapeAttr v @ [CHR 0x22]) as)"

fun serializeNode :: "bool \<Rightarrow> dom \<Rightarrow> string" where
  "serializeNode raw (Text s) = (if raw then s else escapeText s)"
| "serializeNode raw (Comment s) = ''<!--'' @ s @ ''-->''"
| "serializeNode raw (Element t as cs) =
     ''<'' @ t @ serializeAttributes as @ ''>'' @
     (if t \<in> set voidElements then []
      else concat (map (serializeNode (t \<in> set rawTextElements)) cs) @ ''</'' @ t @ ''>'')"
| "serializeNode raw (Template as tc) =
     ''<template'' @ serializeAttributes as @ ''>'' @
     concat (map (serializeNode False) tc) @ ''</template>''"

definition page :: "dom list \<Rightarrow> dom" where
  "page body = Element ''html'' [] [Element ''head'' [] [], Element ''body'' [] body]"

definition doctypePrefix :: string where
  "doctypePrefix = ''<!DOCTYPE html>'' @ [CHR 0x0A]"

definition handlerDoc :: string where
  "handlerDoc = ''<html><head></head><body><p onclick='' @ [CHR 0x22] @ ''abcde'' @ [CHR 0x22] @
     ''>x</p></body></html>''"

definition handlerTree :: dom where
  "handlerTree = page [Element ''p'' [(''onclick'', ''abcde'')] [Text ''x'']]"

definition cleanDoc :: string where
  "cleanDoc = doctypePrefix @ ''<html><head></head><body><p>x</p></body></html>''"

definition cleanTree :: dom where
  "cleanTree = page [Element ''p'' [] [Text ''x'']]"

definition plaintextDoc :: string where
  "plaintextDoc = ''<plaintext>a''"

definition plaintextTree :: dom where
  "plaintextTree = page [Element ''plaintext'' [] [Text ''a'']]"

definition plaintextDoc2 :: string where
  "plaintextDoc2 = doctypePrefix @ ''<html><head></head><body><plaintext>a</plaintext></body></html>''"

definition plaintextTree2 :: dom where
  "plaintextTree2 = page [Element ''plaintext'' [] [Text ''a</plaintext></body></html>'']]"

definition scriptDoc :: string where
  "scriptDoc = ''<html><head></head><body><script>evil()</script><a href='' @ [CHR 0x22] @
     ''javascript:alert(1)'' @ [CHR 0x22] @ '' onclick='' @ [CHR 0x22] @ ''x()'' @ [CHR 0x22] @
     ''>click</a><img src='' @ [CHR 0x22] @ ''https://cdn.example.com/x.png'' @ [CHR 0x22] @
     ''></body></html>''"

definition scriptTree :: dom where
  "scriptTree = page
     [Element ''script'' [] [Text ''evil()''],
      Element ''a'' [(''href'', ''javascript:alert(1)''), (''onclick'', ''x()'')] [Text ''click''],
      Element ''img'' [(''src'', ''https://cdn.example.com/x.png'')] []]"

definition templateDoc :: string where
  "templateDoc = ''<template><script>alert(1)</script><p onclick='' @ [CHR 0x22] @ ''run()'' @
     [CHR 0x22] @ ''>x</p></template>''"

definition templateTree :: dom where
  "templateTree =
     Element ''html'' []
       [Element ''head'' []
          [Template [] [Element ''script'' [] [Text ''alert(1)''],
                        Element ''p'' [(''onclick'', ''run()'')] [Text ''x'']]],
        Element ''body'' [] []]"

definition sampleParse :: "string \<Rightarrow> dom" where
  "sampleParse s =
     (if s = handlerDoc then handlerTree
      else if s = cleanDoc then cleanTree
      else if s = plaintextDoc then plaintextTree
      else if s = plaintextDoc2 then plaintextTree2
      else if s = scriptDoc then scriptTree
      else if s = templateDoc then templateTree
      else page [])"

definition sampleEngine :: html_engine where
  "sampleEngine = \<lparr> parseDocument = sampleParse, outerHTML = serializeNode False \<rparr>"

fun isHtmlRoot :: "dom \<Rightarrow> bool" where
  "isHtmlRoot (Element t as cs) = (t = ''html'')"
| "isHtmlRoot _ = False"

lemma isHtmlRoot_allowed: "isHtmlRoot t \<Longrightarrow> \<not> disallowed t"
  by (cases t) auto

lemma prefixWidth_Nil [simp]: "prefixWidth spaceSeqs [] = 0"
  by (simp add: prefixWidth_def spaceSeqs_def)

lemma prefixWidth_other:
  "(of_char c :: nat) \<notin> {9, 10, 11, 12, 13, 32, 194, 225, 226, 227, 239} \<Longrightarrow>
   prefixWidth spaceSeqs (c # cs) = 0"
  by (simp add: prefixWidth_def spaceSeqs_def)

lemma skipSpace_Nil [simp]: "skipSpace [] = []"
  by (simp add: skipSpace_def skipAll.simps)

lemma skipSpace_other:
  "(of_char c :: nat) \<notin> {9, 10, 11, 12, 13, 32, 194, 225, 226, 227, 239} \<Longrightarrow>
   skipSpace (c # cs) = c # cs"
  by (simp add: skipSpace_def skipAll.simps [of spaceSeqs "c # cs"] prefixWidth_other)

text \<open>
  The repository's own test page (\<open>merge.service.test.js\<close>), in short: a script element, a
  link with a script URL and a handler, and a remote image.  Only the link without its two
  attributes and the image with its \<open>src\<close> are left.
\<close>

lemma sanitize_scriptDoc:
  "sanitizeHtmlBuffer sampleEngine scriptDoc =
     Inr (''<!DOCTYPE html>'' @ [CHR 0x0A] @
          ''<html><head></head><body><a>click</a><img src='' @ [CHR 0x22] @
          ''https://cdn.example.com/x.png'' @ [CHR 0x22] @ ''></body></html>'')"
proof -
  have p: "parseDocument sampleEngine scriptDoc = scriptTree"
    by (simp add: sampleEngine_def sampleParse_def scriptDoc_def handlerDoc_def cleanDoc_def
        plaintextDoc_def plaintextDoc2_def doctypePrefix_def)
  have s: "sanitizeDocument scriptTree =
      page [Element ''a'' [] [Text ''click''],
            Element ''img'' [(''src'', ''https://cdn.example.com/x.png'')] []]"
    by (simp add: sanitizeDocument_def scriptTree_def page_def
        stripAttributes_def stripStep_def toLowerCase_def lowerChar_def onPrefixed_def
        javascriptUrl_def skipSpace_other)
  have "outerHTML sampleEngine (sanitizeDocument scriptTree) =
      ''<html><head></head><body><a>click</a><img src='' @ [CHR 0x22] @
          ''https://cdn.example.com/x.png'' @ [CHR 0x22] @ ''></body></html>''"
    unfolding s
    by (simp add: sampleEngine_def page_def voidElements_def rawTextElements_def escapeText_def
        escapeAttr_def serializeAttributes_def)
  moreover have "\<not> disallowed scriptTree" by (simp add: scriptTree_def page_def)
  ultimately show ?thesis by (simp add: sanitizeHtmlBuffer_def p)
qed

text \<open>
  Upper-case letters and white space of any width before the scheme do not hide a script
  URL from the test.
\<close>

lemma javascriptUrl_spaced:
  "javascriptUrl ([CHR 0x20, CHR 0xE2, CHR 0x80, CHR 0x83, CHR 0x0A] @ ''JavaScript:alert(1)'')"
  by (simp add: javascriptUrl_def skipSpace_def skipAll.simps prefixWidth_def spaceSeqs_def
      toLowerCase_def lowerChar_def)

text \<open>
  Claim C6 does not hold of the code.  The comments on \<open>sanitizeHtmlBuffer\<close> say that
  it \<open>REMOVES DANGEROUS FEATURES - <script>, dangerous attributes/URLs, etc.\<close>, that it
  \<open>removes obviously dangerous elements from the DOM\<close> and that, to strip handlers and
  script URLs, it \<open>walks every element in the document\<close>; the test
  \<open>HTML merge -> HTML output (webhook path sanitizes)\<close> asserts that the written bytes hold
  no \<open>script\<close> tag.  But \<open>querySelectorAll\<close> does not enter the content of a
  \<open>template\<close> element, while \<open>outerHTML\<close> serialises it.  For the markup
  \<^verbatim>\<open><template><script>alert(1)</script><p onclick="run()">x</p></template>\<close>
  the output holds the input unchanged between the tags of \<open>head\<close>, script element and
  handler included.
\<close>

theorem sanitizeHtmlBuffer_keeps_template_content:
  "sanitizeHtmlBuffer sampleEngine templateDoc =
     Inr (''<!DOCTYPE html>'' @ [CHR 0x0A] @ ''<html><head><template><script>alert(1)</script>'' @
          ''<p onclick='' @ [CHR 0x22] @ ''run()'' @ [CHR 0x22] @ ''>x</p></template></head>'' @
          ''<body></body></html>'')"
proof -
  have p: "parseDocument sampleEngine templateDoc = templateTree"
    by (simp add: sampleEngine_def sampleParse_def templateDoc_def handlerDoc_def cleanDoc_def
        plaintextDoc_def plaintextDoc2_def scriptDoc_def doctypePrefix_def)
  have s: "sanitizeDocument templateTree = templateTree"
    by (simp add: sanitizeDocument_def templateTree_def stripAttributes_def)
  have o: "outerHTML sampleEngine templateTree =
      ''<html><head><template><script>alert(1)</script>'' @
      ''<p onclick='' @ [CHR 0x22] @ ''run()'' @ [CHR 0x22] @ ''>x</p></template></head>'' @
      ''<body></body></html>''"
    by (simp add: sampleEngine_def templateTree_def voidElements_def rawTextElements_def
        escapeText_def escapeAttr_def serializeAttributes_def)
  have "\<not> disallowed templateTree" by (simp add: templateTree_def)
  then show ?thesis by (simp add: sanitizeHtmlBuffer_def p s o)
qed

text \<open>
  Claim C7, as the code has it.  Cleaning a cleaned tree changes nothing; and whenever the
  parser reads the sanitizer's output back as the cleaned tree, sanitizing that output
  returns it unchanged.
\<close>

theorem sanitizeHtmlBuffer_idempotent_when_reparsed:
  assumes "isHtmlRoot (parseDocument E x)" and "distinctAttrs (parseDocument E x)"
    and "sanitizeHtmlBuffer E x = Inr y"
    and "parseDocument E y = sanitizeDocument (parseDocument E x)"
  shows "sanitizeHtmlBuffer E y = Inr y \<and>
         sanitizeDocument (sanitizeDocument (parseDocument E x)) =
           sanitizeDocument (parseDocument E x)"
proof -
  let ?root = "parseDocument E x"
  have idem: "sanitizeDocument (sanitizeDocument ?root) = sanitizeDocument ?root"
    using assms(2) by (rule sanitizeDocument_idem)
  from assms(1) have ok: "\<not> disallowed ?root" by (rule isHtmlRoot_allowed)
  with assms(3) have y: "y = ''<!DOCTYPE html>'' @ [CHR 0x0A] @ outerHTML E (sanitizeDocument ?root)"
    by (simp add: sanitizeHtmlBuffer_def)
  have "\<not> disallowed (sanitizeDocument ?root)"
    using ok assms(2) by (simp add: sanitizeDocument_keepSafe)
  with assms(4) idem y have "sanitizeHtmlBuffer E y = Inr y"
    by (simp add: sanitizeHtmlBuffer_def)
  with idem show ?thesis by simp
qed

lemma sampleParse_handlerDoc: "sampleParse handlerDoc = handlerTree"
  by (simp add: sampleParse_def)

lemma sampleParse_cleanDoc: "sampleParse cleanDoc = cleanTree"
  by (simp add: sampleParse_def handlerDoc_def cleanDoc_def doctypePrefix_def)

lemma sanitize_handlerTree: "sanitizeDocument handlerTree = cleanTree"
  by (simp add: sanitizeDocument_def handlerTree_def cleanTree_def page_def
      stripAttributes_def stripStep_def toLowerCase_def lowerChar_def onPrefixed_def)

lemma serialize_cleanTree: "doctypePrefix @ serializeNode False cleanTree = cleanDoc"
  by (simp add: cleanTree_def cleanDoc_def page_def voidElements_def rawTextElements_def
      escapeText_def serializeAttributes_def)

lemma sanitize_handlerDoc: "sanitizeHtmlBuffer sampleEngine handlerDoc = Inr cleanDoc"
  using serialize_cleanTree
  by (simp add: sanitizeHtmlBuffer_def sampleEngine_def sampleParse_handlerDoc
      sanitize_handlerTree doctypePrefix_def)
     (simp add: handlerTree_def page_def)

text \<open>
  The paragraph with a click handler: its sanitized form is read back as the cleaned tree
  and is a fixed point.
\<close>

theorem sanitizeHtmlBuffer_idempotent_when_reparsed_witness:
  "isHtmlRoot (parseDocument sampleEngine handlerDoc) \<and>
   distinctAttrs (parseDocument sampleEngine handlerDoc) \<and>
   sanitizeHtmlBuffer sampleEngine handlerDoc = Inr cleanDoc \<and>
   parseDocument sampleEngine cleanDoc = sanitizeDocument (parseDocument sampleEngine handlerDoc) \<and>
   sanitizeHtmlBuffer sampleEngine cleanDoc = Inr cleanDoc"
proof -
  have h1: "isHtmlRoot (parseDocument sampleEngine handlerDoc)"
    by (simp add: sampleEngine_def sampleParse_handlerDoc handlerTree_def page_def)
  have h2: "distinctAttrs (parseDocument sampleEngine handlerDoc)"
    by (simp add: sampleEngine_def sampleParse_handlerDoc handlerTree_def page_def)
  have h3: "sanitizeHtmlBuffer sampleEngine handlerDoc = Inr cleanDoc"
    by (rule sanitize_handlerDoc)
  have h4: "parseDocument sampleEngine cleanDoc =
      sanitizeDocument (parseDocument sampleEngine handlerDoc)"
    by (simp add: sampleEngine_def sampleParse_handlerDoc sampleParse_cleanDoc
        sanitize_handlerTree)
  from sanitizeHtmlBuffer_idempotent_when_reparsed [OF h1 h2 h3 h4]
  have "sanitizeHtmlBuffer sampleEngine cleanDoc = Inr cleanDoc" by (rule conjunct1)
  with h1 h2 h3 h4 show ?thesis by (intro conjI)
qed

text \<open>
  Claim C7 as stated fails for the input \<open><plaintext>a\<close>: the first pass serialises the
  element with an end tag, the second pass reads that end tag and everything after it as
  text of the element and serialises it again, so the second output is longer than the
  first.
\<close>

theorem sanitizeHtmlBuffer_plaintext_counterexample:
  "sanitizeHtmlBuffer sampleEngine plaintextDoc = Inr plaintextDoc2 \<and>
   sanitizeHtmlBuffer sampleEngine plaintextDoc2 \<noteq> Inr plaintextDoc2"
  by (simp add: sanitizeHtmlBuffer_def sampleEngine_def sampleParse_def
      plaintextDoc_def plaintextDoc2_def handlerDoc_def cleanDoc_def doctypePrefix_def
      plaintextTree_def plaintextTree2_def page_def sanitizeDocument_def
      stripAttributes_def voidElements_def rawTextElements_def escapeText_def
      serializeAttributes_def)

section \<open>Merge orchestrator and conversion chain\<close>

subsection \<open>Effects\<close>

text \<open>
  A template row with the names of its fields (the only property of a field row that is
  read), the job row \<open>mergeTemplate\<close> creates, and how a child process ends: it fails to
  start, or it closes with an exit code (\<open>null\<close> after a signal) and its two captured
  streams.
\<close>

record template =
  template_id :: string
  template_name :: string
  template_fields :: "string list"

record mergeJob =
  job_templateId :: string
  job_data :: jsval
  job_outputType :: string
  job_status :: string
  job_filePath :: string
  job_userId :: jsval

datatype proc_outcome =
    SpawnError jsval
  | Exited "int option" string string

text \<open>
  Every call that leaves the program, or enters one of its rendering components, is an
  event: the call with its arguments, and whether it returned (\<open>True\<close>) or threw.  A
  computation is its result, a thrown value or a return value, with the events it caused in
  order.
\<close>

datatype call =
    Mkdir string
  | ReadFile string
  | WriteFile string string
  | Mkdtemp string
  | Access string
  | Rm string
  | Spawn string "string list" string
  | FindTemplate string
  | CreateJob mergeJob
  | Warn string jsval
  | RenderDocx string jsval
  | RenderHtml string jsval
  | Sanitize string
  | DocxToPdf string
  | BrowserLaunch
  | BrowserNewPage
  | BrowserSetContent string
  | BrowserPdf
  | BrowserClose

type_synonym 'a io = "(thrown + 'a) \<times> (call \<times> bool) list"

text \<open>
  Sequencing as \<open>await\<close> does it (the first throw ends the computation), a library call
  that throws a plain value, a call without a result, \<open>try { body } finally { cleanup }\<close>
  and \<open>try { m } catch {}\<close>.
\<close>

definition returnIO :: "'a \<Rightarrow> 'a io" where
  "returnIO x = (Inr x, [])"

definition throwIO :: "thrown \<Rightarrow> 'a io" where
  "throwIO e = (Inl e, [])"

definition andThen :: "'a io \<Rightarrow> ('a \<Rightarrow> 'b io) \<Rightarrow> 'b io" where
  "andThen m f =
     (case fst m of
        Inl e \<Rightarrow> (Inl e, snd m)
      | Inr x \<Rightarrow> (fst (f x), snd m @ snd (f x)))"

definition lib :: "jsval + 'a \<Rightarrow> thrown + 'a" where
  "lib r = (case r of Inl e \<Rightarrow> Inl (Thrown e) | Inr x \<Rightarrow> Inr x)"

definition completes :: "jsval option \<Rightarrow> thrown + unit" where
  "completes r = (case r of Some e \<Rightarrow> Inl (Thrown e) | None \<Rightarrow> Inr ())"

definition perform :: "call \<Rightarrow> thrown + 'a \<Rightarrow> 'a io" where
  "perform c r = (r, [(c, \<not> isl r)])"

definition finallyIO :: "'a io \<Rightarrow> unit io \<Rightarrow> 'a io" where
  "finallyIO body cleanup =
     (case fst cleanup of
        Inl e \<Rightarrow> (Inl e, snd body @ snd cleanup)
      | Inr u \<Rightarrow> (fst body, snd body @ snd cleanup))"

definition ignoreErrors :: "'a io \<Rightarrow> unit io" where
  "ignoreErrors m = (Inr (), snd m)"

text \<open>
  What the program finds around it: configuration, the clock, and the outcome of each call to
  the file system, the process table, the database client and the libraries.  None of these
  is part of the repository; \<open>path.join\<close> and \<open>path.basename\<close> are taken as they come.
  A \<open>Buffer\<close> is the list of its bytes.  Where the program decodes a \<open>Buffer\<close> only to
  hand the text to a library (\<open>Mustache.render\<close>, \<open>page.setContent\<close>, the parser of
  JSDOM) or encodes what the library returns, the library's entry here takes and returns the
  bytes.
\<close>

record ('z, 'd) env =
  UPLOADS_DIR :: string
  OUTPUTS_DIR :: string
  os_tmpdir :: string
  SOFFICE_BIN :: "string option"
  process_platform :: string
  Date_now :: nat
  path_join :: "string \<Rightarrow> string \<Rightarrow> string"
  path_basename :: "string \<Rightarrow> string"
  fs_mkdir :: "string \<Rightarrow> jsval option"
  fs_readFile :: "string \<Rightarrow> jsval + string"
  fs_writeFile :: "string \<Rightarrow> string \<Rightarrow> jsval option"
  fs_mkdtemp :: "string \<Rightarrow> jsval + string"
  fs_access :: "string \<Rightarrow> jsval option"
  fs_rm :: "string \<Rightarrow> jsval option"
  spawn :: "string \<Rightarrow> string list \<Rightarrow> string \<Rightarrow> proc_outcome"
  prisma_template_findUnique :: "string \<Rightarrow> jsval + template option"
  prisma_mergeJob_create :: "mergeJob \<Rightarrow> jsval + jsval"
  docx :: "('z, 'd) docx_engine"
  Mustache_render :: "string \<Rightarrow> jsval \<Rightarrow> jsval + string"
  jsdom :: html_engine
  libre_convert :: "string \<Rightarrow> jsval + string"
  puppeteer_launch :: "jsval option"
  browser_newPage :: "jsval option"
  page_setContent :: "string \<Rightarrow> jsval option"
  page_pdf :: "string \<Rightarrow> jsval + string"
  browser_close :: "jsval option"

text \<open>
  \<^verbatim>\<open>
  async function ensureOutputsDir() {
    await fs.mkdir(UPLOADS_DIR, { recursive: true });
    await fs.mkdir(OUTPUTS_DIR, { recursive: true });
  }
  async function loadTemplateBuffer(template) {
    const fullPath = path.join(UPLOADS_DIR, template.name);
    return fs.readFile(fullPath);
  }
  async function convertDocxToPdfBuffer(docxBuffer) {
    return convertAsync(docxBuffer, ".pdf", undefined);
  }
  function renderHtmlBuffer(templateBuffer, data) {
    const raw = templateBuffer.toString("utf-8");
    const merged = Mustache.render(raw, data);
    return Buffer.from(merged, "utf-8");
  }
  \<close>
\<close>

definition ensureOutputsDir :: "('z, 'd) env \<Rightarrow> unit io" where
  "ensureOutputsDir env =
     andThen (perform (Mkdir (UPLOADS_DIR env)) (completes (fs_mkdir env (UPLOADS_DIR env))))
       (\<lambda>_. perform (Mkdir (OUTPUTS_DIR env)) (completes (fs_mkdir env (OUTPUTS_DIR env))))"

definition loadTemplateBuffer :: "('z, 'd) env \<Rightarrow> template \<Rightarrow> string io" where
  "loadTemplateBuffer env template =
     (let fullPath = path_join env (UPLOADS_DIR env) (template_name template)
      in perform (ReadFile fullPath) (lib (fs_readFile env fullPath)))"

definition convertDocxToPdfBuffer :: "('z, 'd) env \<Rightarrow> string \<Rightarrow> string io" where
  "convertDocxToPdfBuffer env docxBuffer =
     perform (DocxToPdf docxBuffer) (lib (libre_convert env docxBuffer))"

definition renderHtmlBuffer :: "('z, 'd) env \<Rightarrow> string \<Rightarrow> jsval \<Rightarrow> string io" where
  "renderHtmlBuffer env templateBuffer data =
     perform (RenderHtml templateBuffer data) (lib (Mustache_render env templateBuffer data))"

text \<open>
  \<^verbatim>\<open>
  async function convertHtmlToPdfBuffer(htmlBuffer) {
    const browser = await puppeteer.launch({ headless: "new", args: ["--disable-dev-shm-usage"] });
    try {
      const page = await browser.newPage();
      await page.setContent(htmlBuffer.toString("utf-8"), { waitUntil: "networkidle0" });
      return await page.pdf({ format: "Letter" });
    } finally {
      await browser.close();
    }
  }
  \<close>
\<close>

definition convertHtmlToPdfBuffer :: "('z, 'd) env \<Rightarrow> string \<Rightarrow> string io" where
  "convertHtmlToPdfBuffer env htmlBuffer =
     andThen (perform BrowserLaunch (completes (puppeteer_launch env))) (\<lambda>_.
       finallyIO
         (andThen (perform BrowserNewPage (completes (browser_newPage env))) (\<lambda>_.
          andThen (perform (BrowserSetContent htmlBuffer) (completes (page_setContent env htmlBuffer))) (\<lambda>_.
          perform BrowserPdf (lib (page_pdf env htmlBuffer)))))
         (perform BrowserClose (completes (browser_close env))))"

text \<open>
  \<^verbatim>\<open>
  function runSoffice(cmd, args, cwd) {
    return new Promise((resolve, reject) => {
      const proc = spawn(cmd, args, { cwd });
      let stderr = "", stdout = "";
      proc.stdout.on("data", (d) => (stdout += d.toString()));
      proc.stderr.on("data", (d) => (stderr += d.toString()));
      proc.once("error", reject);
      proc.once("close", (code) => {
        if (code === 0) return resolve({ stdout, stderr });
        const e = new Error(`soffice exit code ${code}\n${stderr || stdout}`.trim());
        e.code = code; e.stdout = stdout; e.stderr = stderr;
        reject(e);
      });
    });
  }
  \<close>
\<close>

definition showCode :: "int option \<Rightarrow> string" where
  "showCode code = (case code of None \<Rightarrow> ''null'' | Some c \<Rightarrow> showInt c)"

definition runSoffice ::
  "('z, 'd) env \<Rightarrow> string \<Rightarrow> string list \<Rightarrow> string \<Rightarrow> (string \<times> string) io" where
  "runSoffice env cmd args cwd =
     perform (Spawn cmd args cwd)
       (case spawn env cmd args cwd of
          SpawnError e \<Rightarrow> Inl (Thrown e)
        | Exited code stdout stderr \<Rightarrow>
            (if code = Some 0 then Inr (stdout, stderr)
             else Inl (Thrown (JObj
               [(''message'', JStr (trim (''soffice exit code '' @ showCode code @ [CHR 0x0A] @
                                          (if stderr \<noteq> [] then stderr else stdout)))),
                (''code'', (case code of None \<Rightarrow> JNull | Some c \<Rightarrow> JNum c)),
                (''stdout'', JStr stdout),
                (''stderr'', JStr stderr)]))))"

text \<open>
  \<^verbatim>\<open>
  async function resolveSoffice() {
    if (process.env.SOFFICE_BIN) return process.env.SOFFICE_BIN;
    if (process.platform === "darwin") {
      const macPath = "/Applications/LibreOffice.app/Contents/MacOS/soffice";
      try { await fs.access(macPath); return macPath; } catch {}
    }
    return "soffice";
  }
  \<close>
\<close>

definition macPath :: string where
  "macPath = ''/Applications/LibreOffice.app/Contents/MacOS/soffice''"

definition probeSoffice :: "('z, 'd) env \<Rightarrow> string io" where
  "probeSoffice env =
     (if process_platform env = ''darwin'' then
        (let m = perform (Access macPath) (completes (fs_access env macPath))
         in (Inr (if isl (fst m) then ''soffice'' else macPath), snd m))
      else returnIO ''soffice'')"

definition resolveSoffice :: "('z, 'd) env \<Rightarrow> string io" where
  "resolveSoffice env =
     (case SOFFICE_BIN env of
        Some bin \<Rightarrow> (if bin \<noteq> [] then returnIO bin else probeSoffice env)
      | None \<Rightarrow> probeSoffice env)"

text \<open>
  \<^verbatim>\<open>
  async function convertHtmlToDocxBuffer(htmlBuffer) {
    const soffice = await resolveSoffice();
    const tmpDir = await fs.mkdtemp(path.join(os.tmpdir(), "html2docx-"));
    const inHtml = path.join(tmpDir, "source.html");
    const midOdt = path.join(tmpDir, "source.odt");
    const outDocx = path.join(tmpDir, "source.docx");
    await fs.writeFile(inHtml, htmlBuffer);
    try {
      await runSoffice(soffice, ["--headless", "--infilter=HTML (StarWriter)",
        "--convert-to", "odt", "--outdir", tmpDir, inHtml], tmpDir);
      await fs.access(midOdt);
      await runSoffice(soffice,
        ["--headless", "--convert-to", "docx", "--outdir", tmpDir, midOdt], tmpDir);
      return await fs.readFile(outDocx);
    } finally {
      try { await fs.rm(tmpDir, { recursive: true, force: true }); } catch {}
    }
  }
  \<close>
\<close>

definition convertHtmlToDocxBuffer :: "('z, 'd) env \<Rightarrow> string \<Rightarrow> string io" where
  "convertHtmlToDocxBuffer env htmlBuffer =
     andThen (resolveSoffice env) (\<lambda>soffice.
     andThen (perform (Mkdtemp (path_join env (os_tmpdir env) ''html2docx-''))
                (lib (fs_mkdtemp env (path_join env (os_tmpdir env) ''html2docx-'')))) (\<lambda>tmpDir.
     let inHtml = path_join env tmpDir ''source.html'';
         midOdt = path_join env tmpDir ''source.odt'';
         outDocx = path_join env tmpDir ''source.docx''
     in
     andThen (perform (WriteFile inHtml htmlBuffer) (completes (fs_writeFile env inHtml htmlBuffer))) (\<lambda>_.
       finallyIO
         (andThen (runSoffice env soffice
                     [''--headless'', ''--infilter=HTML (StarWriter)'', ''--convert-to'', ''odt'',
                      ''--outdir'', tmpDir, inHtml] tmpDir) (\<lambda>_.
          andThen (perform (Access midOdt) (completes (fs_access env midOdt))) (\<lambda>_.
          andThen (runSoffice env soffice
                     [''--headless'', ''--convert-to'', ''docx'', ''--outdir'', tmpDir, midOdt]
                     tmpDir) (\<lambda>_.
          perform (ReadFile outDocx) (lib (fs_readFile env outDocx))))))
         (ignoreErrors (perform (Rm tmpDir) (completes (fs_rm env tmpDir)))))))"

subsection \<open>\<open>mergeTemplate\<close>\<close>

text \<open>
  The validation block of \<open>mergeTemplate\<close>:
  \<^verbatim>\<open>
  const allowed = new Set(template.fields.map((f) => f.name));
  const provided = flattenKeys(data);
  const extras = provided.filter((k) => !allowed.has(k));
  if (extras.length) console.warn("Unexpected field:", extras);
  const providedSet = new Set(provided);
  const missing = [...allowed].filter((k) => !providedSet.has(k));
  if (missing.length) {
    const err = new Error(`Missing required fields: ${missing.join(" ,")}`);
    err.status = 422;
    throw err;
  }
  \<close>
\<close>

definition extraKeys :: "template \<Rightarrow> string list \<Rightarrow> string list" where
  "extraKeys template provided =
     filter (\<lambda>k. k \<notin> set (setOrder (template_fields template))) provided"

definition missingKeys :: "template \<Rightarrow> string list \<Rightarrow> string list" where
  "missingKeys template provided =
     filter (\<lambda>k. k \<notin> set provided) (setOrder (template_fields template))"

definition checkFields :: "template \<Rightarrow> jsval \<Rightarrow> unit io" where
  "checkFields template data =
     (case flattenKeys data [] of
        Inl e \<Rightarrow> throwIO (Thrown e)
      | Inr provided \<Rightarrow>
          andThen (if extraKeys template provided \<noteq> []
                   then perform (Warn ''Unexpected field:''
                                   (JArr (map JStr (extraKeys template provided)))) (Inr ())
                   else returnIO ()) (\<lambda>_.
            if missingKeys template provided \<noteq> [] then
              throwIO (Thrown (JObj
                [(''message'', JStr (''Missing required fields: '' @
                                     joinWith '' ,'' (missingKeys template provided))),
                 (''status'', JNum 422)]))
            else returnIO ()))"

text \<open>
  The value of \<open>provided\<close> for a payload: the list that \<open>flattenKeys\<close> returns (it returns
  one for every argument, lemma \<open>flattenKeys_returns\<close>).
\<close>

abbreviation provided :: "jsval \<Rightarrow> string list" where
  "provided data \<equiv> projr (flattenKeys data [])"

text \<open>
  The tests \<open>/\.docx$/i\<close> and \<open>/\.html?$/i\<close> on the stored name, and the output stem:
  \<open>path.basename(name).replace(/[^\w.\- ]+/g, "_").replace(/\.[^.]+$/, "")\<close>.
  (\<open>\w\<close> is a letter A to Z or a to z, a digit or the underscore.  No byte of a character
  outside ASCII is among the kept characters, so a run of replaced characters is the same run
  in bytes.)
\<close>

definition endsWith :: "string \<Rightarrow> string \<Rightarrow> bool" where
  "endsWith suffix s =
     (length suffix \<le> length s \<and> toLowerCase (drop (length s - length suffix) s) = suffix)"

definition wordChar :: "char \<Rightarrow> bool" where
  "wordChar c =
     (let n = (of_char c :: nat)
      in (48 \<le> n \<and> n \<le> 57) \<or> (65 \<le> n \<and> n \<le> 90) \<or> (97 \<le> n \<and> n \<le> 122) \<or> n = 95)"

definition nameChar :: "char \<Rightarrow> bool" where
  "nameChar c = (wordChar c \<or> c = CHR ''.'' \<or> c = CHR ''-'' \<or> c = CHR '' '')"

function replaceRuns :: "string \<Rightarrow> string" where
  "replaceRuns [] = []"
| "replaceRuns (c # cs) =
     (if nameChar c then c # replaceRuns cs
      else CHR ''_'' # replaceRuns (dropWhile (\<lambda>x. \<not> nameChar x) cs))"
  by pat_completeness auto
termination
  by (relation "measure length") (auto simp: length_dropWhile_le less_Suc_eq_le)

definition stripExtension :: "string \<Rightarrow> string" where
  "stripExtension s =
     (let ext = takeWhile (\<lambda>c. c \<noteq> CHR ''.'') (rev s)
      in if ext \<noteq> [] \<and> length ext < length s then take (length s - length ext - 1) s else s)"

text \<open>
  From type detection to the merged, converted artifact and its path (\<open>outBuffer\<close>,
  \<open>filePath\<close>).  A stored name cannot end in \<open>.docx\<close> and in \<open>.htm\<close> or \<open>.html\<close> at once,
  so the two \<open>if\<close> blocks of the source are the two branches here.  The \<open>catch\<close> around
  \<open>renderDocxBufferOrThrow\<close> sets \<open>status = 422\<close> on a \<open>TemplateParseError\<close> and rethrows.
  \<^verbatim>\<open>
  const mergedHtml = renderHtmlBuffer(buf, data);
  const finalHtml = fromWebhook ? sanitizeHtmlBuffer(mergedHtml) : mergedHtml;
  // audit if changed
  if (fromWebhook && finalHtml.length !== mergedHtml.length) {
    console.warn("Sanitization modified merged HTML for template", template.id);
  }
  \<close>
  Both \<open>mergedHtml\<close> and \<open>finalHtml\<close> are \<open>Buffer\<close>s, so the test compares numbers of
  bytes: the lengths of the two lists.
\<close>

definition tag422 :: "thrown + 'a \<Rightarrow> thrown + 'a" where
  "tag422 r =
     (case r of
        Inl (TemplateParseError ds c s) \<Rightarrow> Inl (TemplateParseError ds c (JNum 422))
      | Inl (Thrown e) \<Rightarrow> Inl (Thrown e)
      | Inr x \<Rightarrow> Inr x)"

definition produceOutput ::
  "('z, 'd) env \<Rightarrow> template \<Rightarrow> jsval \<Rightarrow> string \<Rightarrow> bool \<Rightarrow> (string \<times> string) io" where
  "produceOutput env template data outputType fromWebhook =
     (let isDocx = endsWith ''.docx'' (template_name template);
          isHtml = (endsWith ''.htm'' (template_name template) \<or>
                    endsWith ''.html'' (template_name template))
      in
      if \<not> isDocx \<and> \<not> isHtml then
        throwIO (Thrown (newError ''Unsupported template type. Use .docx or .html''))
      else
        andThen (loadTemplateBuffer env template) (\<lambda>buf.
        let safeBase = stripExtension (replaceRuns (path_basename env (template_name template)));
            stamp = safeBase @ ''-'' @ showNat (Date_now env)
        in
        if isDocx then
          andThen (perform (RenderDocx buf data)
                     (tag422 (renderDocxBufferOrThrow (docx env) buf data))) (\<lambda>mergedDocx.
          if outputType = ''docx'' then
            returnIO (mergedDocx, path_join env (OUTPUTS_DIR env) (stamp @ ''.docx''))
          else if outputType = ''pdf'' then
            andThen (convertDocxToPdfBuffer env mergedDocx) (\<lambda>outBuffer.
              returnIO (outBuffer, path_join env (OUTPUTS_DIR env) (stamp @ ''.pdf'')))
          else throwIO (Thrown (newError (''outputType must be '' @ [CHR 0x27] @ ''docx'' @
                 [CHR 0x27] @ '' or '' @ [CHR 0x27] @ ''pdf'' @ [CHR 0x27]))))
        else
          andThen (renderHtmlBuffer env buf data) (\<lambda>mergedHtml.
          andThen (if fromWebhook
                   then perform (Sanitize mergedHtml) (lib (sanitizeHtmlBuffer (jsdom env) mergedHtml))
                   else returnIO mergedHtml) (\<lambda>finalHtml.
          andThen (if fromWebhook \<and> length finalHtml \<noteq> length mergedHtml
                   then perform (Warn ''Sanitization modified merged HTML for template''
                                   (JStr (template_id template))) (Inr ())
                   else returnIO ()) (\<lambda>_.
          if outputType = ''pdf'' then
            andThen (convertHtmlToPdfBuffer env finalHtml) (\<lambda>outBuffer.
              returnIO (outBuffer, path_join env (OUTPUTS_DIR env) (stamp @ ''.pdf'')))
          else if outputType = ''docx'' then
            andThen (convertHtmlToDocxBuffer env finalHtml) (\<lambda>outBuffer.
              returnIO (outBuffer, path_join env (OUTPUTS_DIR env) (stamp @ ''.docx'')))
          else if outputType = ''html'' then
            returnIO (finalHtml, path_join env (OUTPUTS_DIR env) (stamp @ ''.html''))
          else throwIO (Thrown (newError (''outputType must be '' @ [CHR 0x27] @ ''docx'' @
                 [CHR 0x27] @ '','' @ [CHR 0x27] @ ''pdf'' @ [CHR 0x27] @ '', or '' @
                 [CHR 0x27] @ ''html'' @ [CHR 0x27] @ '' for HTML templates''))))))))"

text \<open>
  \<^verbatim>\<open>
  await fs.writeFile(filePath, outBuffer);
  const job = await prisma.mergeJob.create({
    data: { templateId: template.id, data, outputType, status: "succeeded", filePath,
            userId: userId || null },
  });
  return { jobId: job.id, filePath };
  \<close>
\<close>

definition newJob :: "template \<Rightarrow> jsval \<Rightarrow> string \<Rightarrow> jsval \<Rightarrow> string \<Rightarrow> mergeJob" where
  "newJob template data outputType userId filePath =
     \<lparr> job_templateId = template_id template,
       job_data = data,
       job_outputType = outputType,
       job_status = ''succeeded'',
       job_filePath = filePath,
       job_userId = (if truthy userId then userId else JNull) \<rparr>"

definition persist ::
  "('z, 'd) env \<Rightarrow> template \<Rightarrow> jsval \<Rightarrow> string \<Rightarrow> jsval \<Rightarrow> string \<times> string \<Rightarrow> (jsval \<times> string) io" where
  "persist env template data outputType userId out =
     (case out of (outBuffer, filePath) \<Rightarrow>
         andThen (perform (WriteFile filePath outBuffer)
                    (completes (fs_writeFile env filePath outBuffer))) (\<lambda>_.
         andThen (perform (CreateJob (newJob template data outputType userId filePath))
                    (lib (prisma_mergeJob_create env
                            (newJob template data outputType userId filePath)))) (\<lambda>jobId.
         returnIO (jobId, filePath))))"

text \<open>
  \<open>mergeTemplate({templateId, data, outputType, userId = null, fromWebhook = false})\<close>:
  directories, template lookup (\<open>Template not found\<close>), validation, rendering and
  conversion, then the write and the job row.
\<close>

definition mergeTemplate ::
  "('z, 'd) env \<Rightarrow> string \<Rightarrow> jsval \<Rightarrow> string \<Rightarrow> jsval \<Rightarrow> bool \<Rightarrow> (jsval \<times> string) io" where
  "mergeTemplate env templateId data outputType userId fromWebhook =
     andThen (ensureOutputsDir env) (\<lambda>_.
     andThen (perform (FindTemplate templateId) (lib (prisma_template_findUnique env templateId)))
       (\<lambda>found.
     case found of
       None \<Rightarrow> throwIO (Thrown (newError ''Template not found''))
     | Some template \<Rightarrow>
         andThen (checkFields template data) (\<lambda>_.
         andThen (produceOutput env template data outputType fromWebhook)
           (persist env template data outputType userId))))"

subsection \<open>Sequencing lemmas\<close>

lemma andThen_fails: "fst m = Inl e \<Longrightarrow> andThen m f = (Inl e, snd m)"
  by (simp add: andThen_def)

lemma andThen_continues: "fst m = Inr x \<Longrightarrow> andThen m f = (fst (f x), snd m @ snd (f x))"
  by (simp add: andThen_def)

lemma perform_result [simp]: "fst (perform c r) = r"
  by (simp add: perform_def)

lemma perform_trace [simp]: "snd (perform c r) = [(c, \<not> isl r)]"
  by (simp add: perform_def)

lemma returnIO_simps [simp]: "fst (returnIO x) = Inr x" "snd (returnIO x) = []"
  by (simp_all add: returnIO_def)

lemma throwIO_simps [simp]: "fst (throwIO e) = Inl e" "snd (throwIO e) = []"
  by (simp_all add: throwIO_def)

lemma andThen_trace_cases:
  "snd (andThen m f) = snd m \<or> (\<exists>x. fst m = Inr x \<and> snd (andThen m f) = snd m @ snd (f x))"
  by (cases "fst m") (simp_all add: andThen_def)

lemma finallyIO_trace [simp]: "snd (finallyIO body cleanup) = snd body @ snd cleanup"
  by (simp add: finallyIO_def split: sum.splits)

lemma ignoreErrors_simps [simp]: "fst (ignoreErrors m) = Inr ()" "snd (ignoreErrors m) = snd m"
  by (simp_all add: ignoreErrors_def)

lemma finallyIO_ignoreErrors [simp]: "fst (finallyIO body (ignoreErrors m)) = fst body"
  by (simp add: finallyIO_def)

text \<open>Which calls a computation may make.\<close>

definition only :: "(call \<Rightarrow> bool) \<Rightarrow> 'a io \<Rightarrow> bool" where
  "only P m = (\<forall>ev \<in> set (snd m). P (fst ev))"

lemma only_andThen: "only P m \<Longrightarrow> (\<And>x. only P (f x)) \<Longrightarrow> only P (andThen m f)"
  by (cases "fst m") (fastforce simp: only_def andThen_def)+

lemma only_perform: "P c \<Longrightarrow> only P (perform c r)"
  by (simp add: only_def)

lemma only_returnIO: "only P (returnIO x)"
  by (simp add: only_def)

lemma only_throwIO: "only P (throwIO e)"
  by (simp add: only_def)

lemma only_finallyIO: "only P body \<Longrightarrow> only P cleanup \<Longrightarrow> only P (finallyIO body cleanup)"
  by (auto simp: only_def)

lemma only_ignoreErrors: "only P m \<Longrightarrow> only P (ignoreErrors m)"
  by (simp add: only_def)

lemmas only_intros =
  only_andThen only_perform only_returnIO only_throwIO only_finallyIO only_ignoreErrors

fun notCreateJob :: "call \<Rightarrow> bool" where
  "notCreateJob (CreateJob j) = False"
| "notCreateJob _ = True"

fun notPersist :: "call \<Rightarrow> bool" where
  "notPersist (CreateJob j) = False"
| "notPersist (WriteFile p b) = False"
| "notPersist _ = True"

lemma only_runSoffice: "only notCreateJob (runSoffice env cmd args cwd)"
  by (simp add: runSoffice_def only_perform)

lemma only_resolveSoffice: "only notCreateJob (resolveSoffice env)"
  by (auto simp: resolveSoffice_def probeSoffice_def only_def Let_def split: option.splits)

lemma only_convertHtmlToDocxBuffer: "only notCreateJob (convertHtmlToDocxBuffer env b)"
  unfolding convertHtmlToDocxBuffer_def Let_def
  by (intro only_intros only_runSoffice only_resolveSoffice) simp_all

lemma only_convertHtmlToPdfBuffer: "only notCreateJob (convertHtmlToPdfBuffer env b)"
  unfolding convertHtmlToPdfBuffer_def
  by (intro only_intros) simp_all

lemma only_produceOutput: "only notCreateJob (produceOutput env t d ot fw)"
  unfolding produceOutput_def Let_def loadTemplateBuffer_def convertDocxToPdfBuffer_def
    renderHtmlBuffer_def
  by (auto intro!: only_intros only_convertHtmlToDocxBuffer only_convertHtmlToPdfBuffer)

lemma only_checkFields: "only notPersist (checkFields t d)"
  unfolding checkFields_def by (auto intro!: only_intros split: sum.splits)

lemma only_ensureOutputsDir: "only notPersist (ensureOutputsDir env)"
  unfolding ensureOutputsDir_def by (intro only_intros) simp_all



lemma uniq_set: "set (uniq seen xs) = set xs - set seen"
  by (induction xs arbitrary: seen) auto

lemma uniq_distinct: "distinct (uniq seen xs)"
  by (induction xs arbitrary: seen) (auto simp: uniq_set)

lemma setOrder_set [simp]: "set (setOrder xs) = set xs"
  by (simp add: setOrder_def uniq_set)

lemma setOrder_distinct [simp]: "distinct (setOrder xs)"
  by (simp add: setOrder_def uniq_distinct)

lemma flattenKeys_nullish: "\<not> truthy v \<Longrightarrow> flattenKeys v p = Inr []"
  by (subst flattenKeys.simps) (simp add: orEmpty_def)

lemma ensureOutputsDir_ok:
  "fs_mkdir env (UPLOADS_DIR env) = None \<Longrightarrow> fs_mkdir env (OUTPUTS_DIR env) = None \<Longrightarrow>
   ensureOutputsDir env = (Inr (), [(Mkdir (UPLOADS_DIR env), True), (Mkdir (OUTPUTS_DIR env), True)])"
  by (simp add: ensureOutputsDir_def andThen_def completes_def)

lemma mergeTemplate_found:
  assumes "fs_mkdir env (UPLOADS_DIR env) = None" and "fs_mkdir env (OUTPUTS_DIR env) = None"
    and "prisma_template_findUnique env tid = Inr (Some t)"
  shows "mergeTemplate env tid data ot uid fw =
     (fst (andThen (checkFields t data) (\<lambda>_.
           andThen (produceOutput env t data ot fw) (persist env t data ot uid))),
      [(Mkdir (UPLOADS_DIR env), True), (Mkdir (OUTPUTS_DIR env), True), (FindTemplate tid, True)] @
      snd (andThen (checkFields t data) (\<lambda>_.
           andThen (produceOutput env t data ot fw) (persist env t data ot uid))))"
  unfolding mergeTemplate_def ensureOutputsDir_ok [OF assms(1,2)]
  by (simp add: andThen_def assms(3) lib_def)

lemma checkFields_returned:
  "checkFields t data =
     andThen (if extraKeys t (provided data) \<noteq> []
              then perform (Warn ''Unexpected field:''
                              (JArr (map JStr (extraKeys t (provided data))))) (Inr ())
              else returnIO ()) (\<lambda>_.
       if missingKeys t (provided data) \<noteq> [] then
         throwIO (Thrown (JObj
           [(''message'', JStr (''Missing required fields: '' @
                                joinWith '' ,'' (missingKeys t (provided data)))),
            (''status'', JNum 422)]))
       else returnIO ())"
  by (subst checkFields_def, subst flattenKeys_projr) simp

lemma checkFields_missing:
  "missingKeys t (provided data) \<noteq> [] \<Longrightarrow>
   checkFields t data =
     (Inl (Thrown (JObj
        [(''message'', JStr (''Missing required fields: '' @
                             joinWith '' ,'' (missingKeys t (provided data)))),
         (''status'', JNum 422)])),
      (if extraKeys t (provided data) \<noteq> []
       then [(Warn ''Unexpected field:'' (JArr (map JStr (extraKeys t (provided data)))), True)]
       else []))"
  by (simp add: checkFields_returned andThen_def)

lemma checkFields_passes:
  "missingKeys t (provided data) = [] \<Longrightarrow>
   checkFields t data =
     (Inr (),
      (if extraKeys t (provided data) \<noteq> []
       then [(Warn ''Unexpected field:'' (JArr (map JStr (extraKeys t (provided data)))), True)]
       else []))"
  by (simp add: checkFields_returned andThen_def)

text \<open>
  Claim C3.  When the directories exist and the template is found, a declared field that is
  not among the flattened paths of the payload makes \<open>mergeTemplate\<close> throw an error with
  status 422 whose message joins all missing paths; the run consists of the two directory
  calls, the lookup and at most the warning about extra keys, so nothing is read or
  rendered.  A template without declared fields passes the check for every payload.
  (\<open>provided data\<close> is the list that \<open>flattenKeys\<close> returns for the payload.)
\<close>

theorem mergeTemplate_missing_required:
  assumes "fs_mkdir env (UPLOADS_DIR env) = None" and "fs_mkdir env (OUTPUTS_DIR env) = None"
    and "prisma_template_findUnique env templateId = Inr (Some t)"
    and "\<exists>f \<in> set (template_fields t). f \<notin> set (provided data)"
  shows "flattenKeys data [] = Inr (provided data) \<and>
         mergeTemplate env templateId data outputType userId fromWebhook =
           (Inl (Thrown (JObj
              [(''message'', JStr (''Missing required fields: '' @
                                   joinWith '' ,'' (missingKeys t (provided data)))),
               (''status'', JNum 422)])),
            [(Mkdir (UPLOADS_DIR env), True), (Mkdir (OUTPUTS_DIR env), True),
             (FindTemplate templateId, True)] @
            (if extraKeys t (provided data) \<noteq> []
             then [(Warn ''Unexpected field:'' (JArr (map JStr (extraKeys t (provided data)))),
                    True)]
             else [])) \<and>
         set (missingKeys t (provided data)) =
           {f \<in> set (template_fields t). f \<notin> set (provided data)} \<and>
         distinct (missingKeys t (provided data)) \<and>
         (template_fields t' = [] \<longrightarrow> fst (checkFields t' data') = Inr ())"
proof -
  have r: "flattenKeys data [] = Inr (provided data)" by (rule flattenKeys_projr)
  have m: "set (missingKeys t (provided data)) =
      {f \<in> set (template_fields t). f \<notin> set (provided data)}"
    by (auto simp: missingKeys_def)
  with assms(4) have ne: "missingKeys t (provided data) \<noteq> []" by auto
  have run: "mergeTemplate env templateId data outputType userId fromWebhook =
           (Inl (Thrown (JObj
              [(''message'', JStr (''Missing required fields: '' @
                                   joinWith '' ,'' (missingKeys t (provided data)))),
               (''status'', JNum 422)])),
            [(Mkdir (UPLOADS_DIR env), True), (Mkdir (OUTPUTS_DIR env), True),
             (FindTemplate templateId, True)] @
            (if extraKeys t (provided data) \<noteq> []
             then [(Warn ''Unexpected field:'' (JArr (map JStr (extraKeys t (provided data)))),
                    True)]
             else []))"
    unfolding mergeTemplate_found [OF assms(1-3)] checkFields_missing [OF ne]
    by (simp add: andThen_def)
  have d: "distinct (missingKeys t (provided data))" by (simp add: missingKeys_def)
  have z: "template_fields t' = [] \<longrightarrow> fst (checkFields t' data') = Inr ()"
    by (simp add: checkFields_passes missingKeys_def setOrder_def)
  from r run m d z show ?thesis by blast
qed

text \<open>
  Claim C10.  \<open>Object.entries\<close> throws on \<open>null\<close> and on \<open>undefined\<close>, and \<open>flattenKeys\<close>
  does not: for such a payload it returns the empty list, as it returns a list for every
  argument.  \<open>mergeTemplate\<close> on a template with at least one declared field then throws
  the missing-fields error that names every declared field.
\<close>

theorem mergeTemplate_null_payload:
  assumes "fs_mkdir env (UPLOADS_DIR env) = None" and "fs_mkdir env (OUTPUTS_DIR env) = None"
    and "prisma_template_findUnique env templateId = Inr (Some t)"
    and "template_fields t \<noteq> []"
    and "data = JNull \<or> data = JUndefined"
  shows "entries data = Inl typeError \<and>
         flattenKeys data prefix = Inr [] \<and>
         (\<exists>ks. flattenKeys v p = Inr ks) \<and>
         mergeTemplate env templateId data outputType userId fromWebhook =
           (Inl (Thrown (JObj
              [(''message'', JStr (''Missing required fields: '' @
                                   joinWith '' ,'' (setOrder (template_fields t)))),
               (''status'', JNum 422)])),
            [(Mkdir (UPLOADS_DIR env), True), (Mkdir (OUTPUTS_DIR env), True),
             (FindTemplate templateId, True)]) \<and>
         set (setOrder (template_fields t)) = set (template_fields t)"
proof -
  from assms(5) have e: "entries data = Inl typeError" by auto
  from assms(5) have f: "flattenKeys data q = Inr []" for q
    by (auto simp: flattenKeys_nullish)
  have tot: "\<exists>ks. flattenKeys v p = Inr ks" by (rule flattenKeys_returns)
  from f have pd: "provided data = []" by simp
  then have mk: "missingKeys t (provided data) = setOrder (template_fields t)"
    and ek: "extraKeys t (provided data) = []"
    by (simp_all add: missingKeys_def extraKeys_def)
  from assms(4) have "setOrder (template_fields t) \<noteq> []"
    by (metis setOrder_set set_empty)
  then have ne: "missingKeys t (provided data) \<noteq> []" unfolding mk .
  have run: "mergeTemplate env templateId data outputType userId fromWebhook =
           (Inl (Thrown (JObj
              [(''message'', JStr (''Missing required fields: '' @
                                   joinWith '' ,'' (setOrder (template_fields t)))),
               (''status'', JNum 422)])),
            [(Mkdir (UPLOADS_DIR env), True), (Mkdir (OUTPUTS_DIR env), True),
             (FindTemplate templateId, True)])"
    unfolding mergeTemplate_found [OF assms(1-3)] checkFields_missing [OF ne]
    by (simp add: andThen_def mk ek)
  from e f [of prefix] tot run show ?thesis by simp
qed

lemma andThen_Inl [simp]: "andThen (Inl e, t) f = (Inl e, t)"
  by (simp add: andThen_def)

lemma andThen_Inr [simp]: "andThen (Inr x, t) f = (fst (f x), t @ snd (f x))"
  by (simp add: andThen_def)

lemma andThen_returnIO [simp]: "andThen (returnIO x) f = f x"
  by (simp add: andThen_def returnIO_def)

lemma andThen_throwIO [simp]: "andThen (throwIO e) f = throwIO e"
  by (simp add: andThen_def throwIO_def)

lemma andThen_perform:
  "andThen (perform c r) f =
     (case r of
        Inl e \<Rightarrow> (Inl e, [(c, False)])
      | Inr x \<Rightarrow> (fst (f x), (c, True) # snd (f x)))"
  by (cases r) (simp_all add: andThen_def perform_def)

lemma persist_outcome:
  "persist env t data ot uid (b, p) =
     (case fs_writeFile env p b of
        Some e \<Rightarrow> (Inl (Thrown e), [(WriteFile p b, False)])
      | None \<Rightarrow>
          (case prisma_mergeJob_create env (newJob t data ot uid p) of
             Inl e \<Rightarrow> (Inl (Thrown e), [(WriteFile p b, True), (CreateJob (newJob t data ot uid p), False)])
           | Inr jobId \<Rightarrow>
               (Inr (jobId, p), [(WriteFile p b, True), (CreateJob (newJob t data ot uid p), True)])))"
  by (simp add: persist_def andThen_def completes_def lib_def split: option.splits sum.splits)

lemma mergeTemplate_after_lookup:
  assumes EI: "fst (ensureOutputsDir env) = Inr u"
    and FI: "lib (prisma_template_findUnique env tid) = Inr (Some t)"
  shows "mergeTemplate env tid data ot uid fw =
     (fst (andThen (checkFields t data) (\<lambda>_.
             andThen (produceOutput env t data ot fw) (persist env t data ot uid))),
      (snd (ensureOutputsDir env) @ [(FindTemplate tid, True)]) @
      snd (andThen (checkFields t data) (\<lambda>_.
             andThen (produceOutput env t data ot fw) (persist env t data ot uid))))"
  using FI by (simp add: mergeTemplate_def andThen_continues [OF EI] andThen_perform)

lemma mergeTemplate_shape:
  obtains
    (early) e pre where
      "mergeTemplate env tid data ot uid fw = (Inl e, pre)"
      "\<forall>ev \<in> set pre. notPersist (fst ev)"
  | (chain_failed) t e pre trc where
      "produceOutput env t data ot fw = (Inl e, trc)"
      "mergeTemplate env tid data ot uid fw = (Inl e, pre @ trc)"
      "\<forall>ev \<in> set pre. notPersist (fst ev)"
  | (write_failed) t b p e pre trc where
      "produceOutput env t data ot fw = (Inr (b, p), trc)"
      "mergeTemplate env tid data ot uid fw = (Inl e, pre @ trc @ [(WriteFile p b, False)])"
      "\<forall>ev \<in> set pre. notPersist (fst ev)"
  | (recorded) t b p r ok pre trc where
      "produceOutput env t data ot fw = (Inr (b, p), trc)"
      "mergeTemplate env tid data ot uid fw =
         (r, pre @ trc @ [(WriteFile p b, True), (CreateJob (newJob t data ot uid p), ok)])"
      "\<forall>ev \<in> set pre. notPersist (fst ev)"
      "ok = (\<not> isl r)"
proof -
  let ?E = "ensureOutputsDir env"
  let ?F = "perform (FindTemplate tid) (lib (prisma_template_findUnique env tid)) :: template option io"
  have E: "\<forall>ev \<in> set (snd ?E). notPersist (fst ev)"
    using only_ensureOutputsDir [of env] by (simp add: only_def)
  show thesis
  proof (cases "fst ?E")
    case (Inl e)
    then have "mergeTemplate env tid data ot uid fw = (Inl e, snd ?E)"
      by (simp add: mergeTemplate_def andThen_fails)
    with E show thesis using early by blast
  next
    case EI: (Inr u)
    show thesis
    proof (cases "lib (prisma_template_findUnique env tid)")
      case (Inl e)
      then have "mergeTemplate env tid data ot uid fw = (Inl e, snd ?E @ [(FindTemplate tid, False)])"
        by (simp add: mergeTemplate_def andThen_continues [OF EI] andThen_perform)
      moreover have "\<forall>ev \<in> set (snd ?E @ [(FindTemplate tid, False)]). notPersist (fst ev)"
        using E by simp
      ultimately show thesis using early by blast
    next
      case FI: (Inr found)
      let ?before = "snd ?E @ [(FindTemplate tid, True)]"
      have before: "\<forall>ev \<in> set ?before. notPersist (fst ev)" using E by simp
      show thesis
      proof (cases found)
        case None
        then have "mergeTemplate env tid data ot uid fw =
            (Inl (Thrown (newError ''Template not found'')), ?before)"
          using FI by (simp add: mergeTemplate_def andThen_continues [OF EI] andThen_perform)
        with before show thesis using early by blast
      next
        case (Some t)
        let ?C = "checkFields t data"
        let ?pre = "?before @ snd ?C"
        have pre: "\<forall>ev \<in> set ?pre. notPersist (fst ev)"
          using before only_checkFields [of t data] by (auto simp: only_def)
        have run: "mergeTemplate env tid data ot uid fw =
            (fst (andThen ?C (\<lambda>_. andThen (produceOutput env t data ot fw) (persist env t data ot uid))),
             ?before @ snd (andThen ?C (\<lambda>_. andThen (produceOutput env t data ot fw) (persist env t data ot uid))))"
          using mergeTemplate_after_lookup [OF EI, of tid t data ot uid fw] FI Some by simp
        show thesis
        proof (cases "fst ?C")
          case (Inl e)
          with run have "mergeTemplate env tid data ot uid fw = (Inl e, ?pre)"
            by (simp add: andThen_fails)
          with pre show thesis using early by blast
        next
          case CI: (Inr u')
          obtain r trc where P: "produceOutput env t data ot fw = (r, trc)"
            by (cases "produceOutput env t data ot fw")
          show thesis
          proof (cases r)
            case (Inl e)
            with run P have "mergeTemplate env tid data ot uid fw = (Inl e, ?pre @ trc)"
              by (simp add: andThen_continues [OF CI])
            with P Inl pre show thesis using chain_failed by blast
          next
            case (Inr out)
            obtain b p where out: "out = (b, p)" by (cases out)
            have run2: "mergeTemplate env tid data ot uid fw =
                (fst (persist env t data ot uid (b, p)), ?pre @ trc @ snd (persist env t data ot uid (b, p)))"
              using run P Inr out by (simp add: andThen_continues [OF CI])
            show thesis
            proof (cases "fs_writeFile env p b")
              case (Some e)
              with run2 have "mergeTemplate env tid data ot uid fw =
                  (Inl (Thrown e), ?pre @ trc @ [(WriteFile p b, False)])"
                by (simp add: persist_outcome)
              with P Inr out pre show thesis using write_failed by blast
            next
              case None
              show thesis
              proof (cases "prisma_mergeJob_create env (newJob t data ot uid p)")
                case (Inl e)
                with run2 None have "mergeTemplate env tid data ot uid fw =
                  (Inl (Thrown e), ?pre @ trc @
                     [(WriteFile p b, True), (CreateJob (newJob t data ot uid p), False)])"
                  by (simp add: persist_outcome)
                with P Inr out pre show thesis using recorded [of t b p trc "Inl (Thrown e)" ?pre False]
                  by simp
              next
                case (Inr jobId)
                with run2 None have "mergeTemplate env tid data ot uid fw =
                  (Inr (jobId, p), ?pre @ trc @
                     [(WriteFile p b, True), (CreateJob (newJob t data ot uid p), True)])"
                  by (simp add: persist_outcome)
                with P \<open>r = Inr out\<close> out pre show thesis
                  using recorded [of t b p trc "Inr (jobId, p)" ?pre True] by simp
              qed
            qed
          qed
        qed
      qed
    qed
  qed
qed


lemma notPersist_notCreateJob: "notPersist c \<Longrightarrow> notCreateJob c"
  by (cases c) simp_all

lemma notPersist_events:
  "\<forall>ev \<in> set pre. notPersist (fst ev) \<Longrightarrow>
   (CreateJob j, ok) \<notin> set pre \<and> (WriteFile p b, ok) \<notin> set pre"
  by force

lemma notCreateJob_events:
  "\<forall>ev \<in> set trc. notCreateJob (fst ev) \<Longrightarrow> (CreateJob j, ok) \<notin> set trc"
  by force

lemma produceOutput_no_jobs:
  "produceOutput env t d ot fw = (r, trc) \<Longrightarrow> (CreateJob j, ok) \<notin> set trc"
  using only_produceOutput [of env t d ot fw] by (force simp: only_def)

text \<open>
  Claim C2.  In every run of \<open>mergeTemplate\<close>: a job row is created only as the last step,
  with status \<open>succeeded\<close>, right after the successful write of the file it names, whose
  content is the result of a successful render and convert chain; a failed run has created
  no job row; and every file write of the run is either a write inside the chain (staging
  for a conversion) or the write of the chain's successful result.
\<close>

theorem mergeTemplate_no_partial_writes:
  assumes run: "mergeTemplate env templateId data outputType userId fromWebhook = (res, tr)"
  shows "(\<forall>job ok. (CreateJob job, ok) \<in> set tr \<longrightarrow>
            job_status job = ''succeeded'' \<and>
            (\<exists>pre b t trc.
               tr = pre @ [(WriteFile (job_filePath job) b, True), (CreateJob job, ok)] \<and>
               (\<forall>ev \<in> set pre. notCreateJob (fst ev)) \<and>
               produceOutput env t data outputType fromWebhook = (Inr (b, job_filePath job), trc))) \<and>
         (isl res \<longrightarrow> (\<forall>job. (CreateJob job, True) \<notin> set tr)) \<and>
         (\<forall>p b ok. (WriteFile p b, ok) \<in> set tr \<longrightarrow>
            (\<exists>t r trc. produceOutput env t data outputType fromWebhook = (r, trc) \<and>
               ((WriteFile p b, ok) \<in> set trc \<or> r = Inr (b, p))))"
proof (cases rule: mergeTemplate_shape [of env templateId data outputType userId fromWebhook])
  case (early e pre)
  with run have tr: "tr = pre" and r: "res = Inl e" by simp_all
  from early(2) have "\<And>j ok. (CreateJob j, ok) \<notin> set tr" "\<And>p b ok. (WriteFile p b, ok) \<notin> set tr"
    unfolding tr by force+
  then show ?thesis by blast
next
  case (chain_failed t e pre trc)
  with run have tr: "tr = pre @ trc" and r: "res = Inl e" by simp_all
  have nojob: "(CreateJob j, ok) \<notin> set tr" for j ok
    using notPersist_events [OF chain_failed(3)] produceOutput_no_jobs [OF chain_failed(1)]
    unfolding tr by auto
  have writes: "(WriteFile p b, ok) \<in> set trc" if "(WriteFile p b, ok) \<in> set tr" for p b ok
    using that notPersist_events [OF chain_failed(3)] unfolding tr by auto
  from nojob writes chain_failed(1) show ?thesis by blast
next
  case (write_failed t b p e pre trc)
  with run have tr: "tr = pre @ trc @ [(WriteFile p b, False)]" and r: "res = Inl e" by simp_all
  have nojob: "(CreateJob j, ok) \<notin> set tr" for j ok
    using notPersist_events [OF write_failed(3)] produceOutput_no_jobs [OF write_failed(1)]
    unfolding tr by auto
  have writes: "(WriteFile p' b', ok) \<in> set trc \<or> (b', p') = (b, p)"
    if "(WriteFile p' b', ok) \<in> set tr" for p' b' ok
    using that notPersist_events [OF write_failed(3)] unfolding tr by auto
  from nojob writes write_failed(1) show ?thesis by blast
next
  case (recorded t b p r ok pre trc)
  let ?job = "newJob t data outputType userId p"
  from recorded run have tr: "tr = pre @ trc @ [(WriteFile p b, True), (CreateJob ?job, ok)]"
    and r: "res = r" by simp_all
  have before: "\<forall>ev \<in> set (pre @ trc). notCreateJob (fst ev)"
    using recorded(3) only_produceOutput [of env t data outputType fromWebhook] recorded(1)
    by (auto simp: only_def dest: notPersist_notCreateJob)
  have jobs: "j = ?job \<and> ok' = ok" if "(CreateJob j, ok') \<in> set tr" for j ok'
    using that notCreateJob_events [OF before] unfolding tr by auto
  have shape: "tr = (pre @ trc) @ [(WriteFile (job_filePath ?job) b, True), (CreateJob ?job, ok)]"
    unfolding tr by (simp add: newJob_def)
  have created: "job_status ?job = ''succeeded''" by (simp add: newJob_def)
  have chain: "produceOutput env t data outputType fromWebhook = (Inr (b, job_filePath ?job), trc)"
    using recorded(1) by (simp add: newJob_def)
  have first: "job_status j = ''succeeded'' \<and>
      (\<exists>pre b t trc.
         tr = pre @ [(WriteFile (job_filePath j) b, True), (CreateJob j, ok')] \<and>
         (\<forall>ev \<in> set pre. notCreateJob (fst ev)) \<and>
         produceOutput env t data outputType fromWebhook = (Inr (b, job_filePath j), trc))"
    if "(CreateJob j, ok') \<in> set tr" for j ok'
    using jobs [OF that] created shape before chain by blast
  have second: "isl res \<longrightarrow> (\<forall>job. (CreateJob job, True) \<notin> set tr)"
    using jobs recorded(4) r by blast
  have third: "\<exists>t r trc. produceOutput env t data outputType fromWebhook = (r, trc) \<and>
      ((WriteFile p' b', ok') \<in> set trc \<or> r = Inr (b', p'))"
    if "(WriteFile p' b', ok') \<in> set tr" for p' b' ok'
  proof -
    from that notPersist_events [OF recorded(3)]
    have "(WriteFile p' b', ok') \<in> set trc \<or> (b', p') = (b, p)" unfolding tr by auto
    with recorded(1) show ?thesis by blast
  qed
  from first second third show ?thesis by blast
qed


subsection \<open>A sample environment\<close>

text \<open>
  Two templates, a disk on which every call succeeds, a Mustache that returns a template
  without tags as it is, the sample HTML engine, and a clock.
\<close>

definition pageTemplate :: template where
  "pageTemplate = \<lparr> template_id = ''tpl-html-1'', template_name = ''page.html'', template_fields = [] \<rparr>"

definition badTemplate :: template where
  "badTemplate = \<lparr> template_id = ''tpl-docx-3'', template_name = ''3333-bad.docx'',
                    template_fields = [''required.key''] \<rparr>"

definition sampleEnv :: "(string, unit) env" where
  "sampleEnv =
     \<lparr> UPLOADS_DIR = ''/srv/uploads'',
       OUTPUTS_DIR = ''/srv/outputs'',
       os_tmpdir = ''/tmp'',
       SOFFICE_BIN = None,
       process_platform = ''linux'',
       Date_now = 1700000000000,
       path_join = (\<lambda>a b. a @ ''/'' @ b),
       path_basename = (\<lambda>p. rev (takeWhile (\<lambda>c. c \<noteq> CHR ''/'') (rev p))),
       fs_mkdir = (\<lambda>p. None),
       fs_readFile = (\<lambda>p. if p = ''/srv/uploads/page.html'' then Inr handlerDoc
                          else Inl (newError ''ENOENT'')),
       fs_writeFile = (\<lambda>p b. None),
       fs_mkdtemp = (\<lambda>prefix. Inr (prefix @ ''abc123'')),
       fs_access = (\<lambda>p. None),
       fs_rm = (\<lambda>p. None),
       spawn = (\<lambda>cmd args cwd. Exited (Some 0) [] []),
       prisma_template_findUnique = (\<lambda>i.
          if i = ''tpl-html-1'' then Inr (Some pageTemplate)
          else if i = ''tpl-docx-3'' then Inr (Some badTemplate)
          else Inr None),
       prisma_mergeJob_create = (\<lambda>job. Inr (JNum 101)),
       docx = DocxMock False JNull,
       Mustache_render = (\<lambda>raw data. Inr raw),
       jsdom = sampleEngine,
       libre_convert = (\<lambda>b. Inr ''PDF_BUF''),
       puppeteer_launch = None,
       browser_newPage = None,
       page_setContent = (\<lambda>h. None),
       page_pdf = (\<lambda>h. Inr ''PDF_BUF''),
       browser_close = None \<rparr>"

lemma stamp_1700000000000: "showNat 1700000000000 = ''1700000000000''"
  by (simp add: showNat.simps)



lemma sample_safeBase:
  "stripExtension (replaceRuns (path_basename sampleEnv ''page.html'')) = ''page''"
  by (simp add: sampleEnv_def stripExtension_def nameChar_def wordChar_def)

lemma sample_kinds:
  "\<not> endsWith ''.docx'' ''page.html''" "endsWith ''.html'' ''page.html''"
  by (simp_all add: endsWith_def toLowerCase_def lowerChar_def)

lemma sample_sanitize: "sanitizeHtmlBuffer (jsdom sampleEnv) handlerDoc = Inr cleanDoc"
  by (simp add: sampleEnv_def sanitize_handlerDoc)

lemma sample_lengths: "length cleanDoc = length handlerDoc" "cleanDoc \<noteq> handlerDoc"
  by (simp_all add: cleanDoc_def handlerDoc_def doctypePrefix_def)

lemma sample_produceOutput:
  "produceOutput sampleEnv pageTemplate (JObj []) ''html'' True =
     (Inr (cleanDoc, ''/srv/outputs/page-1700000000000.html''),
      [(ReadFile ''/srv/uploads/page.html'', True),
       (RenderHtml handlerDoc (JObj []), True),
       (Sanitize handlerDoc, True)])"
proof -
  have name: "template_name pageTemplate = ''page.html''" by (simp add: pageTemplate_def)
  have load: "loadTemplateBuffer sampleEnv pageTemplate =
      (Inr handlerDoc, [(ReadFile ''/srv/uploads/page.html'', True)])"
    by (simp add: loadTemplateBuffer_def name perform_def lib_def sampleEnv_def)
  have render: "renderHtmlBuffer sampleEnv handlerDoc (JObj []) =
      (Inr handlerDoc, [(RenderHtml handlerDoc (JObj []), True)])"
    by (simp add: renderHtmlBuffer_def perform_def lib_def sampleEnv_def)
  have san: "perform (Sanitize handlerDoc) (lib (sanitizeHtmlBuffer (jsdom sampleEnv) handlerDoc)) =
      (Inr cleanDoc, [(Sanitize handlerDoc, True)])"
    by (simp add: sample_sanitize perform_def lib_def)
  have dirs: "OUTPUTS_DIR sampleEnv = ''/srv/outputs''" "Date_now sampleEnv = 1700000000000"
    "path_join sampleEnv = (\<lambda>a b. a @ ''/'' @ b)"
    by (simp_all add: sampleEnv_def)
  show ?thesis
    unfolding produceOutput_def Let_def name
    by (simp add: sample_kinds load render san sample_lengths sample_safeBase
        stamp_1700000000000 dirs)
qed


lemma sample_lookup:
  "fs_mkdir sampleEnv (UPLOADS_DIR sampleEnv) = None"
  "fs_mkdir sampleEnv (OUTPUTS_DIR sampleEnv) = None"
  "prisma_template_findUnique sampleEnv ''tpl-html-1'' = Inr (Some pageTemplate)"
  "prisma_template_findUnique sampleEnv ''tpl-docx-3'' = Inr (Some badTemplate)"
  "UPLOADS_DIR sampleEnv = ''/srv/uploads''" "OUTPUTS_DIR sampleEnv = ''/srv/outputs''"
  by (simp_all add: sampleEnv_def)

lemma sample_mkdir: "fs_mkdir sampleEnv p = None"
  by (simp add: sampleEnv_def)

lemma sample_checkFields: "checkFields pageTemplate (JObj []) = (Inr (), [])"
  by (simp add: checkFields_def missingKeys_def extraKeys_def pageTemplate_def setOrder_def
      flattenKeys_obj returnIO_def)

lemma sample_webhook_run:
  "mergeTemplate sampleEnv ''tpl-html-1'' (JObj []) ''html'' JNull True =
     (Inr (JNum 101, ''/srv/outputs/page-1700000000000.html''),
      [(Mkdir ''/srv/uploads'', True), (Mkdir ''/srv/outputs'', True),
       (FindTemplate ''tpl-html-1'', True),
       (ReadFile ''/srv/uploads/page.html'', True),
       (RenderHtml handlerDoc (JObj []), True),
       (Sanitize handlerDoc, True),
       (WriteFile ''/srv/outputs/page-1700000000000.html'' cleanDoc, True),
       (CreateJob (newJob pageTemplate (JObj []) ''html'' JNull
                     ''/srv/outputs/page-1700000000000.html''), True)])"
proof -
  have store: "fs_writeFile sampleEnv p b = None"
    "prisma_mergeJob_create sampleEnv j = Inr (JNum 101)" for p b j
    by (simp_all add: sampleEnv_def)
  show ?thesis
    unfolding mergeTemplate_found [OF sample_lookup(1,2,3)]
    by (simp add: sample_checkFields sample_produceOutput persist_outcome store sample_lookup)
qed

text \<open>
  Claim C8 at a markup template whose merged text is
  \<open><html><head></head><body><p onclick="abcde">x</p></body></html>\<close>, merged for an
  untrusted caller: sanitizing removes the sixteen bytes of the handler attribute and puts
  the sixteen bytes of the doctype line in front, so the artifact that is written differs
  from the merged one and has its length.  The run makes no \<open>console.warn\<close> call.
\<close>

theorem mergeTemplate_silent_sanitization:
  "mergeTemplate sampleEnv ''tpl-html-1'' (JObj []) ''html'' JNull True =
     (Inr (JNum 101, ''/srv/outputs/page-1700000000000.html''),
      [(Mkdir ''/srv/uploads'', True), (Mkdir ''/srv/outputs'', True),
       (FindTemplate ''tpl-html-1'', True),
       (ReadFile ''/srv/uploads/page.html'', True),
       (RenderHtml handlerDoc (JObj []), True),
       (Sanitize handlerDoc, True),
       (WriteFile ''/srv/outputs/page-1700000000000.html'' cleanDoc, True),
       (CreateJob (newJob pageTemplate (JObj []) ''html'' JNull
                     ''/srv/outputs/page-1700000000000.html''), True)]) \<and>
   sanitizeHtmlBuffer (jsdom sampleEnv) handlerDoc = Inr cleanDoc \<and>
   cleanDoc \<noteq> handlerDoc \<and> length cleanDoc = length handlerDoc"
  using sample_webhook_run sample_sanitize sample_lengths by simp

text \<open>The same template merged for a trusted caller: the merged text is written as it is.\<close>

lemma sample_trusted_produceOutput:
  "produceOutput sampleEnv pageTemplate (JObj []) ''html'' False =
     (Inr (handlerDoc, ''/srv/outputs/page-1700000000000.html''),
      [(ReadFile ''/srv/uploads/page.html'', True),
       (RenderHtml handlerDoc (JObj []), True)])"
proof -
  have name: "template_name pageTemplate = ''page.html''" by (simp add: pageTemplate_def)
  have load: "loadTemplateBuffer sampleEnv pageTemplate =
      (Inr handlerDoc, [(ReadFile ''/srv/uploads/page.html'', True)])"
    by (simp add: loadTemplateBuffer_def name perform_def lib_def sampleEnv_def)
  have render: "renderHtmlBuffer sampleEnv handlerDoc (JObj []) =
      (Inr handlerDoc, [(RenderHtml handlerDoc (JObj []), True)])"
    by (simp add: renderHtmlBuffer_def perform_def lib_def sampleEnv_def)
  have dirs: "OUTPUTS_DIR sampleEnv = ''/srv/outputs''" "Date_now sampleEnv = 1700000000000"
    "path_join sampleEnv = (\<lambda>a b. a @ ''/'' @ b)"
    by (simp_all add: sampleEnv_def)
  show ?thesis
    unfolding produceOutput_def Let_def name
    by (simp add: sample_kinds load render sample_safeBase stamp_1700000000000 dirs)
qed

lemma sample_trusted_run:
  "mergeTemplate sampleEnv ''tpl-html-1'' (JObj []) ''html'' (JStr ''u1'') False =
     (Inr (JNum 101, ''/srv/outputs/page-1700000000000.html''),
      [(Mkdir ''/srv/uploads'', True), (Mkdir ''/srv/outputs'', True),
       (FindTemplate ''tpl-html-1'', True),
       (ReadFile ''/srv/uploads/page.html'', True),
       (RenderHtml handlerDoc (JObj []), True),
       (WriteFile ''/srv/outputs/page-1700000000000.html'' handlerDoc, True),
       (CreateJob (newJob pageTemplate (JObj []) ''html'' (JStr ''u1'')
                     ''/srv/outputs/page-1700000000000.html''), True)])"
proof -
  have store: "fs_writeFile sampleEnv p b = None"
    "prisma_mergeJob_create sampleEnv j = Inr (JNum 101)" for p b j
    by (simp_all add: sampleEnv_def)
  show ?thesis
    unfolding mergeTemplate_found [OF sample_lookup(1,2,3)]
    by (simp add: sample_checkFields sample_trusted_produceOutput persist_outcome store
        sample_lookup)
qed

text \<open>A trusted merge of the sample page to markup: the write, then the job row.\<close>

theorem mergeTemplate_no_partial_writes_witness:
  "mergeTemplate sampleEnv ''tpl-html-1'' (JObj []) ''html'' (JStr ''u1'') False =
     (Inr (JNum 101, ''/srv/outputs/page-1700000000000.html''),
      [(Mkdir ''/srv/uploads'', True), (Mkdir ''/srv/outputs'', True),
       (FindTemplate ''tpl-html-1'', True),
       (ReadFile ''/srv/uploads/page.html'', True),
       (RenderHtml handlerDoc (JObj []), True),
       (WriteFile ''/srv/outputs/page-1700000000000.html'' handlerDoc, True),
       (CreateJob (newJob pageTemplate (JObj []) ''html'' (JStr ''u1'')
                     ''/srv/outputs/page-1700000000000.html''), True)]) \<and>
   job_status (newJob pageTemplate (JObj []) ''html'' (JStr ''u1'')
                 ''/srv/outputs/page-1700000000000.html'') = ''succeeded'' \<and>
   job_filePath (newJob pageTemplate (JObj []) ''html'' (JStr ''u1'')
                 ''/srv/outputs/page-1700000000000.html'') =
     ''/srv/outputs/page-1700000000000.html''"
proof -
  let ?job = "newJob pageTemplate (JObj []) ''html'' (JStr ''u1'')
                 ''/srv/outputs/page-1700000000000.html''"
  note facts = mergeTemplate_no_partial_writes [OF sample_trusted_run]
  have "(CreateJob ?job, True) \<in> set
      [(Mkdir ''/srv/uploads'', True), (Mkdir ''/srv/outputs'', True),
       (FindTemplate ''tpl-html-1'', True),
       (ReadFile ''/srv/uploads/page.html'', True),
       (RenderHtml handlerDoc (JObj []), True),
       (WriteFile ''/srv/outputs/page-1700000000000.html'' handlerDoc, True),
       (CreateJob ?job, True)]"
    by simp
  with facts have "job_status ?job = ''succeeded''" by blast
  moreover have "job_filePath ?job = ''/srv/outputs/page-1700000000000.html''"
    by (simp add: newJob_def)
  ultimately show ?thesis using sample_trusted_run by simp
qed

text \<open>
  The test \<open>missing required fields throws 422\<close> of the repository: the template declares
  \<open>required.key\<close>, the payload is \<open>{other: "x"}\<close>.
\<close>

theorem mergeTemplate_missing_required_witness:
  "fs_mkdir sampleEnv (UPLOADS_DIR sampleEnv) = None \<and>
   fs_mkdir sampleEnv (OUTPUTS_DIR sampleEnv) = None \<and>
   prisma_template_findUnique sampleEnv ''tpl-docx-3'' = Inr (Some badTemplate) \<and>
   ''required.key'' \<in> set (template_fields badTemplate) \<and>
   flattenKeys (JObj [(''other'', JStr ''x'')]) [] = Inr [''other''] \<and>
   mergeTemplate sampleEnv ''tpl-docx-3'' (JObj [(''other'', JStr ''x'')]) ''docx'' JNull False =
     (Inl (Thrown (JObj [(''message'', JStr ''Missing required fields: required.key''),
                         (''status'', JNum 422)])),
      [(Mkdir ''/srv/uploads'', True), (Mkdir ''/srv/outputs'', True),
       (FindTemplate ''tpl-docx-3'', True),
       (Warn ''Unexpected field:'' (JArr [JStr ''other'']), True)])"
proof -
  let ?data = "JObj [(''other'', JStr ''x'')]"
  have fk: "flattenKeys ?data [] = Inr [''other'']" by (simp add: flattenKeys_obj joinPath_def)
  have h4: "\<exists>f \<in> set (template_fields badTemplate). f \<notin> set (provided ?data)"
    by (simp add: fk badTemplate_def)
  have mk: "missingKeys badTemplate (provided ?data) = [''required.key'']"
    by (simp add: missingKeys_def fk badTemplate_def setOrder_def)
  have ek: "extraKeys badTemplate (provided ?data) = [''other'']"
    by (simp add: extraKeys_def fk badTemplate_def setOrder_def)
  from mergeTemplate_missing_required [OF sample_lookup(1,2,4) h4, of "''docx''" JNull False]
  have "mergeTemplate sampleEnv ''tpl-docx-3'' ?data ''docx'' JNull False =
     (Inl (Thrown (JObj [(''message'', JStr ''Missing required fields: required.key''),
                         (''status'', JNum 422)])),
      [(Mkdir ''/srv/uploads'', True), (Mkdir ''/srv/outputs'', True),
       (FindTemplate ''tpl-docx-3'', True),
       (Warn ''Unexpected field:'' (JArr [JStr ''other'']), True)])"
    by (simp add: mk ek sample_lookup)
  then show ?thesis by (simp add: sample_lookup sample_mkdir fk badTemplate_def)
qed

text \<open>The same template with the payload \<open>null\<close>.\<close>

theorem mergeTemplate_null_payload_witness:
  "fs_mkdir sampleEnv (UPLOADS_DIR sampleEnv) = None \<and>
   fs_mkdir sampleEnv (OUTPUTS_DIR sampleEnv) = None \<and>
   prisma_template_findUnique sampleEnv ''tpl-docx-3'' = Inr (Some badTemplate) \<and>
   template_fields badTemplate = [''required.key''] \<and>
   entries JNull = Inl typeError \<and>
   flattenKeys JNull [] = Inr [] \<and>
   mergeTemplate sampleEnv ''tpl-docx-3'' JNull ''docx'' JNull False =
     (Inl (Thrown (JObj [(''message'', JStr ''Missing required fields: required.key''),
                         (''status'', JNum 422)])),
      [(Mkdir ''/srv/uploads'', True), (Mkdir ''/srv/outputs'', True),
       (FindTemplate ''tpl-docx-3'', True)])"
proof -
  have h4: "template_fields badTemplate \<noteq> []" by (simp add: badTemplate_def)
  have h5: "JNull = JNull \<or> JNull = JUndefined" by simp
  from mergeTemplate_null_payload [OF sample_lookup(1,2,4) h4 h5,
      where outputType = "''docx''" and userId = JNull and fromWebhook = False
        and prefix = "[]" and v = JNull and p = "[]"]
  show ?thesis by (simp add: sample_lookup sample_mkdir badTemplate_def setOrder_def)
qed

subsection \<open>The two-stage conversion\<close>

lemma isl_completes: "isl (completes r) = (r \<noteq> None)"
  by (cases r) (simp_all add: completes_def)

lemma fst_andThen: "fst (andThen m f) = (case fst m of Inl e \<Rightarrow> Inl e | Inr x \<Rightarrow> fst (f x))"
  by (cases "fst m") (simp_all add: andThen_def)

lemma fst_andThen_cong:
  "fst m = fst m' \<Longrightarrow> (\<And>x. fst (f x) = fst (f' x)) \<Longrightarrow>
   fst (andThen m f) = fst (andThen m' f')"
  by (cases "fst m'") (simp_all add: fst_andThen)

lemma resolveSoffice_returns: "\<exists>bin. fst (resolveSoffice env) = Inr bin"
  by (simp add: resolveSoffice_def probeSoffice_def Let_def split: option.splits)

text \<open>
  Once the input file is staged, the working directory is removed last, whatever the body
  of the \<open>try\<close> did, and the outcome of the removal does not reach the result.
\<close>

lemma convertHtmlToDocxBuffer_cleans_up:
  assumes "fst (resolveSoffice env) = Inr soffice"
    and "fs_mkdtemp env (path_join env (os_tmpdir env) ''html2docx-'') = Inr tmpDir"
    and "fs_writeFile env (path_join env tmpDir ''source.html'') html = None"
  shows "\<exists>body. snd (convertHtmlToDocxBuffer env html) =
           snd (resolveSoffice env) @
           [(Mkdtemp (path_join env (os_tmpdir env) ''html2docx-''), True),
            (WriteFile (path_join env tmpDir ''source.html'') html, True)] @
           body @ [(Rm tmpDir, fs_rm env tmpDir = None)]"
  unfolding convertHtmlToDocxBuffer_def Let_def
  by (simp add: andThen_continues [OF assms(1)] andThen_perform lib_def assms(2,3)
      completes_def [of None] isl_completes)

lemma convertHtmlToDocxBuffer_rm_irrelevant:
  "fst (convertHtmlToDocxBuffer (env \<lparr> fs_rm := r \<rparr>) html) = fst (convertHtmlToDocxBuffer env html)"
proof -
  let ?env = "env \<lparr> fs_rm := r \<rparr>"
  have probe: "probeSoffice ?env = probeSoffice env"
    by (simp add: probeSoffice_def)
  have same: "resolveSoffice ?env = resolveSoffice env"
    "runSoffice ?env cmd args cwd = runSoffice env cmd args cwd" for cmd args cwd
    unfolding resolveSoffice_def runSoffice_def probe by simp_all
  show ?thesis
    unfolding convertHtmlToDocxBuffer_def Let_def same
    by (intro fst_andThen_cong) simp_all
qed

text \<open>
  When the intermediate file is missing after the first stage, the second stage is not
  started.
\<close>

lemma convertHtmlToDocxBuffer_fails_fast:
  assumes "fst (resolveSoffice env) = Inr soffice"
    and "fs_mkdtemp env (path_join env (os_tmpdir env) ''html2docx-'') = Inr tmpDir"
    and "fs_writeFile env (path_join env tmpDir ''source.html'') html = None"
    and "spawn env soffice
           [''--headless'', ''--infilter=HTML (StarWriter)'', ''--convert-to'', ''odt'',
            ''--outdir'', tmpDir, path_join env tmpDir ''source.html''] tmpDir = Exited (Some 0) out err"
    and "fs_access env (path_join env tmpDir ''source.odt'') = Some e"
  shows "convertHtmlToDocxBuffer env html =
           (Inl (Thrown e),
            snd (resolveSoffice env) @
            [(Mkdtemp (path_join env (os_tmpdir env) ''html2docx-''), True),
             (WriteFile (path_join env tmpDir ''source.html'') html, True),
             (Spawn soffice
                [''--headless'', ''--infilter=HTML (StarWriter)'', ''--convert-to'', ''odt'',
                 ''--outdir'', tmpDir, path_join env tmpDir ''source.html''] tmpDir, True),
             (Access (path_join env tmpDir ''source.odt''), False),
             (Rm tmpDir, fs_rm env tmpDir = None)])"
  unfolding convertHtmlToDocxBuffer_def Let_def
  by (simp add: andThen_continues [OF assms(1)] andThen_perform lib_def assms(2-5)
      runSoffice_def finallyIO_def completes_def [of None] completes_def [of "Some e"]
      isl_completes)

text \<open>When staging the input file fails, nothing removes the working directory.\<close>

lemma convertHtmlToDocxBuffer_staging_fails:
  assumes "fst (resolveSoffice env) = Inr soffice"
    and "fs_mkdtemp env (path_join env (os_tmpdir env) ''html2docx-'') = Inr tmpDir"
    and "fs_writeFile env (path_join env tmpDir ''source.html'') html = Some e"
  shows "convertHtmlToDocxBuffer env html =
           (Inl (Thrown e),
            snd (resolveSoffice env) @
            [(Mkdtemp (path_join env (os_tmpdir env) ''html2docx-''), True),
             (WriteFile (path_join env tmpDir ''source.html'') html, False)])"
  unfolding convertHtmlToDocxBuffer_def Let_def
  by (simp add: andThen_continues [OF assms(1)] andThen_perform lib_def assms(2,3)
      completes_def [of "Some e"])

text \<open>
  Claim C5 on a full disk: the temporary directory \<open>/tmp/html2docx-abc123\<close> is created,
  writing \<open>source.html\<close> into it fails, and the conversion ends with that error.  The
  write stands before the \<open>try\<close>, so its \<open>finally\<close> does not run: the trace has no \<open>Rm\<close>
  and the directory stays.
\<close>

theorem convertHtmlToDocxBuffer_leaks_directory:
  "convertHtmlToDocxBuffer
     (sampleEnv \<lparr> fs_writeFile := (\<lambda>p b. Some (newError ''ENOSPC'')) \<rparr>) handlerDoc =
     (Inl (Thrown (newError ''ENOSPC'')),
      [(Mkdtemp ''/tmp/html2docx-'', True),
       (WriteFile ''/tmp/html2docx-abc123/source.html'' handlerDoc, False)])"
proof -
  let ?env = "sampleEnv \<lparr> fs_writeFile := (\<lambda>p b. Some (newError ''ENOSPC'')) \<rparr>"
  have r: "resolveSoffice ?env = (Inr ''soffice'', [])"
    by (simp add: resolveSoffice_def probeSoffice_def sampleEnv_def returnIO_def)
  have h1: "fst (resolveSoffice ?env) = Inr ''soffice''" by (simp add: r)
  have h2: "fs_mkdtemp ?env (path_join ?env (os_tmpdir ?env) ''html2docx-'') =
      Inr ''/tmp/html2docx-abc123''"
    by (simp add: sampleEnv_def)
  have h3: "fs_writeFile ?env (path_join ?env ''/tmp/html2docx-abc123'' ''source.html'') handlerDoc =
      Some (newError ''ENOSPC'')"
    by (simp add: sampleEnv_def)
  show ?thesis
    unfolding convertHtmlToDocxBuffer_staging_fails [OF h1 h2 h3] r
    by (simp add: sampleEnv_def)
qed

end
